theory Spec2Isabelle
  imports Complex_Main "HOL-Library.Multiset"
begin

section \<open>The Jukebox API: an Express application over a PostgreSQL schema\<close>

text \<open>
  The development embeds the route handlers of the application (\<^verbatim>\<open>app.js\<close>: seven
  handlers and the helper \<^verbatim>\<open>isValidId\<close>) together with the schema they run against
  (\<^verbatim>\<open>schema.sql\<close>: three tables with \<^verbatim>\<open>SERIAL\<close> keys, two foreign keys and one
  uniqueness constraint). A handler is a function from the database client, the request
  and the state of the store to a response and the new state of the store.
\<close>

subsection \<open>JavaScript values\<close>

text \<open>
  Strings are lists of characters; the characters of this model are the code units
  \<open>0x00\<close> to \<open>0xFF\<close>.

  \<open>number\<close> holds the Number values without a fractional part: \<open>NaN\<close>, the two
  infinities and the integral doubles, each by its exact value. These are all the values
  \<^verbatim>\<open>parseInt\<close> returns and all the values \<^verbatim>\<open>Number.isInteger\<close> admits. A finite
  Number with a fractional part only occurs in a request body (\<open>JFraction\<close> below).
\<close>

datatype number = NaN | PosInfinity | NegInfinity | Integral int

text \<open>
  A parsed JSON document as \<^verbatim>\<open>express.json()\<close> leaves it in \<^verbatim>\<open>req.body\<close>. An object is
  the list of its members. \<open>get_prop\<close> reads a property the way the handlers destructure
  \<^verbatim>\<open>req.body\<close>: the member of an object, and \<^verbatim>\<open>undefined\<close> on anything else (the three names
  the handlers read, \<^verbatim>\<open>name\<close>, \<^verbatim>\<open>description\<close> and \<^verbatim>\<open>trackId\<close>, are no properties of an
  array or of a primitive). The value \<^verbatim>\<open>undefined\<close> is \<open>None\<close> of \<open>json option\<close>.
\<close>

datatype json =
    JNull
  | JBool bool
  | JNumber number
  | JFraction rat
  | JString string
  | JArray "json list"
  | JObject "(string \<times> json) list"

fun get_prop :: "json \<Rightarrow> string \<Rightarrow> json option" where
  "get_prop (JObject members) k = map_of members k"
| "get_prop _ k = None"

text \<open>ToBoolean, as \<^verbatim>\<open>!x\<close> applies it: the falsy values are \<^verbatim>\<open>undefined\<close>, \<^verbatim>\<open>null\<close>,
  \<^verbatim>\<open>false\<close>, \<^verbatim>\<open>0\<close>, \<^verbatim>\<open>NaN\<close> and the empty string.\<close>

fun truthy :: "json option \<Rightarrow> bool" where
  "truthy None = False"
| "truthy (Some JNull) = False"
| "truthy (Some (JBool b)) = b"
| "truthy (Some (JNumber n)) = (n \<noteq> NaN \<and> n \<noteq> Integral 0)"
| "truthy (Some (JFraction r)) = (r \<noteq> 0)"
| "truthy (Some (JString s)) = (s \<noteq> [])"
| "truthy (Some (JArray xs)) = True"
| "truthy (Some (JObject ms)) = True"

subsection \<open>Decimal numerals\<close>

definition isDigit :: "char \<Rightarrow> bool" where
  "isDigit c = (c \<in> set ''0123456789'')"

definition digit_value :: "char \<Rightarrow> int" where
  "digit_value c = int (of_char c) - 48"

definition digit_char :: "int \<Rightarrow> char" where
  "digit_char d = ''0123456789'' ! nat d"

text \<open>The integer a string of decimal digits denotes, most significant digit first.\<close>

definition digits_value :: "string \<Rightarrow> int" where
  "digits_value ds = foldl (\<lambda>a c. 10 * a + digit_value c) 0 ds"

text \<open>The decimal numeral of a natural number, with no leading zero.\<close>

fun decimal :: "nat \<Rightarrow> string" where
  "decimal n = (if n < 10 then [digit_char (int n)]
                else decimal (n div 10) @ [digit_char (int (n mod 10))])"

subsection \<open>Doubles: rounding an integer, printing an integral Number\<close>

fun bit_length :: "nat \<Rightarrow> nat" where
  "bit_length n = (if n = 0 then 0 else Suc (bit_length (n div 2)))"

text \<open>
  The Number value of a non-negative mathematical integer: the nearest double, ties to
  the even significand (53 bits), and \<open>Infinity\<close> from \<open>2^1024\<close> on. Integers below
  \<open>2^53\<close> are doubles themselves.
\<close>

definition to_double :: "int \<Rightarrow> number" where
  "to_double m =
     (if m < 2 ^ 53 then Integral m
      else
        let e = bit_length (nat m) - 53;
            q = m div 2 ^ e;
            r = m mod 2 ^ e;
            h = 2 ^ (e - 1);
            q' = (if h < r \<or> (r = h \<and> odd q) then q + 1 else q)
        in if 2 ^ 1024 \<le> q' * 2 ^ e then PosInfinity else Integral (q' * 2 ^ e))"

text \<open>
  \<^verbatim>\<open>Number.prototype.toString\<close> prints the decimal with the fewest significant digits
  that still reads back as the same double, the closest one when there are several.
  \<open>shortest_search v j\<close> tries to zero the last \<open>j\<close> decimal digits of \<open>v\<close>, rounding
  down or up, for \<open>j\<close> from the largest downwards; with no digit zeroed, \<open>v\<close> itself
  reads back.
\<close>

fun shortest_search :: "int \<Rightarrow> nat \<Rightarrow> int" where
  "shortest_search v 0 = v"
| "shortest_search v (Suc j) =
     (let p = 10 ^ Suc j;
          lo = (v div p) * p;
          hi = lo + p;
          ok_lo = (0 < lo \<and> to_double lo = Integral v);
          ok_hi = (to_double hi = Integral v)
      in if ok_lo \<and> ok_hi then
           (if v - lo < hi - v then lo
            else if hi - v < v - lo then hi
            else if even (lo div p) then lo else hi)
         else if ok_lo then lo
         else if ok_hi then hi
         else shortest_search v j)"

definition shortest_decimal :: "int \<Rightarrow> int" where
  "shortest_decimal v = shortest_search v (length (decimal (nat v)) - 1)"

text \<open>The exponential form, used from \<open>10^21\<close> on: \<^verbatim>\<open>1e+21\<close>, \<^verbatim>\<open>1.5e+300\<close>.\<close>

definition strip_zeros :: "string \<Rightarrow> string" where
  "strip_zeros ds = rev (dropWhile (\<lambda>c. c = CHR ''0'') (rev ds))"

definition exponential :: "int \<Rightarrow> string" where
  "exponential c =
     (let ds = decimal (nat c); frac = strip_zeros (tl ds)
      in hd ds # (if frac = [] then [] else CHR ''.'' # frac)
           @ ''e+'' @ decimal (length ds - 1))"

definition positive_toString :: "int \<Rightarrow> string" where
  "positive_toString v =
     (let c = shortest_decimal v
      in if c < 10 ^ 21 then decimal (nat c) else exponential c)"

fun number_toString :: "number \<Rightarrow> string" where
  "number_toString NaN = ''NaN''"
| "number_toString PosInfinity = ''Infinity''"
| "number_toString NegInfinity = ''-Infinity''"
| "number_toString (Integral n) =
     (if n = 0 then ''0''
      else if n < 0 then CHR ''-'' # positive_toString (- n)
      else positive_toString n)"

subsection \<open>\<^verbatim>\<open>parseInt(string, 10)\<close> and \<^verbatim>\<open>isValidId\<close>\<close>

text \<open>White space and line terminators among the code units of the model: TAB, LF, VT,
  FF, CR, SP and NBSP.\<close>

definition isWhiteSpace :: "char \<Rightarrow> bool" where
  "isWhiteSpace c = (of_char c \<in> {9, 10, 11, 12, 13, 32, 160 :: nat})"

fun negate :: "number \<Rightarrow> number" where
  "negate NaN = NaN"
| "negate PosInfinity = NegInfinity"
| "negate NegInfinity = PosInfinity"
| "negate (Integral n) = Integral (- n)"

text \<open>
  \<^verbatim>\<open>parseInt\<close> with radix 10: leading white space is skipped, one sign is read, then the
  longest run of decimal digits; what follows the digits is ignored. No digit gives
  \<open>NaN\<close>. The digits are read exactly and the integer is rounded to a double.
\<close>

definition parseInt :: "string \<Rightarrow> number" where
  "parseInt inputString =
     (let S = dropWhile isWhiteSpace inputString;
          minus = (S \<noteq> [] \<and> hd S = CHR ''-'');
          S' = (if S \<noteq> [] \<and> (hd S = CHR ''+'' \<or> hd S = CHR ''-'') then tl S else S);
          Z = takeWhile isDigit S'
      in if Z = [] then NaN
         else if minus then negate (to_double (digits_value Z))
         else to_double (digits_value Z))"

text \<open>
  \<^verbatim>\<open>
  function isValidId(idString) {
    const id = parseInt(idString, 10);
    return !isNaN(id) && id > 0 && id.toString() === idString;
  }
  \<close>
\<close>

fun isNaN :: "number \<Rightarrow> bool" where
  "isNaN NaN = True"
| "isNaN _ = False"

fun is_positive :: "number \<Rightarrow> bool" where
  "is_positive NaN = False"
| "is_positive PosInfinity = True"
| "is_positive NegInfinity = False"
| "is_positive (Integral n) = (0 < n)"

definition isValidId :: "string \<Rightarrow> bool" where
  "isValidId idString =
     (let i = parseInt idString
      in \<not> isNaN i \<and> is_positive i \<and> number_toString i = idString)"

subsection \<open>The schema\<close>

text \<open>
  \<^verbatim>\<open>
  CREATE TABLE playlists (id SERIAL PRIMARY KEY, name TEXT NOT NULL, description TEXT NOT NULL);
  CREATE TABLE tracks (id SERIAL PRIMARY KEY, name TEXT NOT NULL, duration_ms INTEGER NOT NULL);
  CREATE TABLE playlists_tracks (
      id SERIAL PRIMARY KEY, playlist_id INTEGER NOT NULL, track_id INTEGER NOT NULL,
      FOREIGN KEY (playlist_id) REFERENCES playlists(id) ON DELETE CASCADE,
      FOREIGN KEY (track_id) REFERENCES tracks(id) ON DELETE CASCADE,
      UNIQUE(playlist_id, track_id));
  \<close>
  A table is the list of its rows in the order they were inserted. A \<^verbatim>\<open>SERIAL\<close> column
  owns a sequence; the state of a sequence is the value its next \<^verbatim>\<open>nextval\<close> returns.
\<close>

record playlist =
  p_id :: int
  p_name :: string
  p_description :: string

record track =
  t_id :: int
  t_name :: string
  t_duration_ms :: int

record playlist_track =
  pt_id :: int
  pt_playlist_id :: int
  pt_track_id :: int

record db =
  playlists :: "playlist list"
  tracks :: "track list"
  playlists_tracks :: "playlist_track list"
  playlists_id_seq :: int
  tracks_id_seq :: int
  playlists_tracks_id_seq :: int

text \<open>The range of an \<^verbatim>\<open>INTEGER\<close> column, which is also the range of a \<^verbatim>\<open>SERIAL\<close>
  sequence.\<close>

definition int4 :: "int \<Rightarrow> bool" where
  "int4 i = (- 2147483648 \<le> i \<and> i \<le> 2147483647)"

text \<open>
  What the schema guarantees of every state of the store: the column types, the three
  primary keys, the uniqueness constraint on \<open>(playlist_id, track_id)\<close>, the two
  foreign keys, and that a \<^verbatim>\<open>SERIAL\<close> sequence starts at 1 and only grows.
\<close>

definition wf_db :: "db \<Rightarrow> bool" where
  "wf_db st =
     (list_all (\<lambda>p. int4 (p_id p)) (playlists st) \<and>
      list_all (\<lambda>t. int4 (t_id t) \<and> int4 (t_duration_ms t)) (tracks st) \<and>
      list_all (\<lambda>pt. int4 (pt_id pt) \<and> int4 (pt_playlist_id pt) \<and> int4 (pt_track_id pt))
        (playlists_tracks st) \<and>
      distinct (map p_id (playlists st)) \<and>
      distinct (map t_id (tracks st)) \<and>
      distinct (map pt_id (playlists_tracks st)) \<and>
      distinct (map (\<lambda>pt. (pt_playlist_id pt, pt_track_id pt)) (playlists_tracks st)) \<and>
      list_all (\<lambda>pt. pt_playlist_id pt \<in> p_id ` set (playlists st) \<and>
                     pt_track_id pt \<in> t_id ` set (tracks st)) (playlists_tracks st) \<and>
      1 \<le> playlists_id_seq st \<and> 1 \<le> tracks_id_seq st \<and> 1 \<le> playlists_tracks_id_seq st)"

subsection \<open>The database client\<close>

text \<open>
  An error a query throws: \<^verbatim>\<open>code\<close> is the SQLSTATE of a server error (absent on other
  errors, such as a lost connection), \<^verbatim>\<open>constraint\<close> names the violated constraint.
\<close>

datatype db_error = DbError (err_code: "string option") (err_constraint: "string option")

definition unique_violation :: "string \<Rightarrow> db_error" where
  "unique_violation c = DbError (Some ''23505'') (Some c)"

definition foreign_key_violation :: "string \<Rightarrow> db_error" where
  "foreign_key_violation c = DbError (Some ''23503'') (Some c)"

definition numeric_value_out_of_range :: db_error where
  "numeric_value_out_of_range = DbError (Some ''22003'') None"

definition invalid_text_representation :: db_error where
  "invalid_text_representation = DbError (Some ''22P02'') None"

definition character_not_in_repertoire :: db_error where
  "character_not_in_repertoire = DbError (Some ''22021'') None"

definition sequence_generator_limit_exceeded :: db_error where
  "sequence_generator_limit_exceeded = DbError (Some ''2200H'') None"

text \<open>A query parameter as the handler passes it; the driver sends it as text
  (\<^verbatim>\<open>val.toString()\<close> for a number).\<close>

datatype param = PString string | PNumber number

fun prepareValue :: "param \<Rightarrow> string" where
  "prepareValue (PString s) = s"
| "prepareValue (PNumber n) = number_toString n"

text \<open>The eight statements of the handlers, each with its parameters.\<close>

datatype query =
    SelectTracks
  | SelectTrack param
  | SelectPlaylists
  | InsertPlaylist param param
  | SelectPlaylist param
  | SelectPlaylistId param
  | SelectPlaylistTracks param
  | SelectTrackId param
  | InsertPlaylistTrack param param

datatype row =
    TrackRow track
  | PlaylistRow playlist
  | IdRow int
  | PlaylistTrackRow playlist_track

text \<open>\<^verbatim>\<open>db.query(text, values)\<close>: rows, or a thrown error, and the store afterwards.\<close>

type_synonym 's client = "query \<Rightarrow> 's \<Rightarrow> (db_error + row list) \<times> 's"

subsection \<open>PostgreSQL on this schema\<close>

text \<open>
  A parameter compared with or stored in an \<^verbatim>\<open>INTEGER\<close> column is read as a decimal
  integer: white space, an optional sign, digits, white space. Anything else is a syntax
  error (22P02), a value outside the 32-bit range is error 22003.
\<close>

definition isspace :: "char \<Rightarrow> bool" where
  "isspace c = (of_char c \<in> {9, 10, 11, 12, 13, 32 :: nat})"

definition int4in :: "string \<Rightarrow> db_error + int" where
  "int4in s =
     (let t = dropWhile isspace s;
          minus = (t \<noteq> [] \<and> hd t = CHR ''-'');
          u = (if t \<noteq> [] \<and> (hd t = CHR ''+'' \<or> hd t = CHR ''-'') then tl t else t);
          ds = takeWhile isDigit u;
          rest = dropWhile isspace (dropWhile isDigit u);
          v = (if minus then - digits_value ds else digits_value ds)
      in if ds = [] \<or> rest \<noteq> [] then Inl invalid_text_representation
         else if \<not> int4 v then Inl numeric_value_out_of_range
         else Inr v)"

text \<open>A \<^verbatim>\<open>TEXT\<close> value cannot hold the character with code 0 (error 22021).\<close>

definition textin :: "string \<Rightarrow> db_error + string" where
  "textin s = (if CHR 0x00 \<in> set s then Inl character_not_in_repertoire else Inr s)"

text \<open>\<^verbatim>\<open>nextval\<close> of a \<^verbatim>\<open>SERIAL\<close> sequence in state \<open>v\<close>: the value \<open>v\<close>, or an error once the
  sequence has passed its maximum.\<close>

definition nextval :: "int \<Rightarrow> db_error + int" where
  "nextval v = (if 2147483647 < v then Inl sequence_generator_limit_exceeded else Inr v)"

text \<open>
  The statements. A \<^verbatim>\<open>SELECT\<close> leaves the store as it is. An \<^verbatim>\<open>INSERT\<close> reads its
  parameters, draws the key from the sequence (which keeps the value drawn even when the
  statement fails afterwards), then checks the primary key, the uniqueness constraint and
  the foreign keys; a failed statement inserts nothing. \<^verbatim>\<open>ORDER BY id\<close> is a sort on the
  key.
\<close>

fun pg_query :: "db client" where
  "pg_query SelectTracks st = (Inr (map TrackRow (sort_key t_id (tracks st))), st)"
| "pg_query (SelectTrack p) st =
     (case int4in (prepareValue p) of
        Inl e \<Rightarrow> (Inl e, st)
      | Inr i \<Rightarrow> (Inr (map TrackRow (filter (\<lambda>t. t_id t = i) (tracks st))), st))"
| "pg_query SelectPlaylists st = (Inr (map PlaylistRow (sort_key p_id (playlists st))), st)"
| "pg_query (InsertPlaylist pn pd) st =
     (case textin (prepareValue pn) of
        Inl e \<Rightarrow> (Inl e, st)
      | Inr n \<Rightarrow>
     (case textin (prepareValue pd) of
        Inl e \<Rightarrow> (Inl e, st)
      | Inr d \<Rightarrow>
     (case nextval (playlists_id_seq st) of
        Inl e \<Rightarrow> (Inl e, st)
      | Inr i \<Rightarrow>
          let st1 = st\<lparr>playlists_id_seq := i + 1\<rparr>;
              r = \<lparr>p_id = i, p_name = n, p_description = d\<rparr>
          in if i \<in> p_id ` set (playlists st)
             then (Inl (unique_violation ''playlists_pkey''), st1)
             else (Inr [PlaylistRow r], st1\<lparr>playlists := playlists st @ [r]\<rparr>))))"
| "pg_query (SelectPlaylist p) st =
     (case int4in (prepareValue p) of
        Inl e \<Rightarrow> (Inl e, st)
      | Inr i \<Rightarrow> (Inr (map PlaylistRow (filter (\<lambda>p. p_id p = i) (playlists st))), st))"
| "pg_query (SelectPlaylistId p) st =
     (case int4in (prepareValue p) of
        Inl e \<Rightarrow> (Inl e, st)
      | Inr i \<Rightarrow> (Inr (map (\<lambda>p. IdRow (p_id p)) (filter (\<lambda>p. p_id p = i) (playlists st))), st))"
| "pg_query (SelectPlaylistTracks p) st =
     (case int4in (prepareValue p) of
        Inl e \<Rightarrow> (Inl e, st)
      | Inr i \<Rightarrow>
          (Inr (map TrackRow (sort_key t_id
             [t. t \<leftarrow> tracks st, pt \<leftarrow> playlists_tracks st,
                 t_id t = pt_track_id pt, pt_playlist_id pt = i])), st))"
| "pg_query (SelectTrackId p) st =
     (case int4in (prepareValue p) of
        Inl e \<Rightarrow> (Inl e, st)
      | Inr i \<Rightarrow> (Inr (map (\<lambda>t. IdRow (t_id t)) (filter (\<lambda>t. t_id t = i) (tracks st))), st))"
| "pg_query (InsertPlaylistTrack pp pt) st =
     (case int4in (prepareValue pp) of
        Inl e \<Rightarrow> (Inl e, st)
      | Inr pl \<Rightarrow>
     (case int4in (prepareValue pt) of
        Inl e \<Rightarrow> (Inl e, st)
      | Inr tr \<Rightarrow>
     (case nextval (playlists_tracks_id_seq st) of
        Inl e \<Rightarrow> (Inl e, st)
      | Inr i \<Rightarrow>
          let st1 = st\<lparr>playlists_tracks_id_seq := i + 1\<rparr>;
              r = \<lparr>pt_id = i, pt_playlist_id = pl, pt_track_id = tr\<rparr>
          in if i \<in> pt_id ` set (playlists_tracks st)
             then (Inl (unique_violation ''playlists_tracks_pkey''), st1)
             else if (pl, tr) \<in> (\<lambda>x. (pt_playlist_id x, pt_track_id x)) ` set (playlists_tracks st)
             then (Inl (unique_violation ''playlists_tracks_playlist_id_track_id_key''), st1)
             else if pl \<notin> p_id ` set (playlists st)
             then (Inl (foreign_key_violation ''playlists_tracks_playlist_id_fkey''), st1)
             else if tr \<notin> t_id ` set (tracks st)
             then (Inl (foreign_key_violation ''playlists_tracks_track_id_fkey''), st1)
             else (Inr [PlaylistTrackRow r],
                   st1\<lparr>playlists_tracks := playlists_tracks st @ [r]\<rparr>))))"

subsection \<open>Responses\<close>

datatype payload =
    JsonRows "row list"
  | JsonRow row
  | JsonUndefined
  | JsonError string

record response =
  status :: nat
  body :: payload

text \<open>\<^verbatim>\<open>function sendError(res, status, message) { res.status(status).json({ error: message }); }\<close>\<close>

definition sendError :: "nat \<Rightarrow> string \<Rightarrow> response" where
  "sendError code message = \<lparr>status = code, body = JsonError message\<rparr>"

text \<open>\<^verbatim>\<open>res.status(code).json(result.rows[0])\<close>; the first element of an empty array is
  \<^verbatim>\<open>undefined\<close>.\<close>

definition first_row :: "row list \<Rightarrow> payload" where
  "first_row rows = (case rows of [] \<Rightarrow> JsonUndefined | r # _ \<Rightarrow> JsonRow r)"

subsection \<open>The handlers\<close>

text \<open>
  Every handler is one \<^verbatim>\<open>try\<close> block whose \<^verbatim>\<open>catch\<close> answers 500. The client \<open>q\<close> stands
  for the imported \<^verbatim>\<open>db\<close>; \<open>s\<close> is the state of the store.
\<close>

text \<open>\<^verbatim>\<open>app.get("/tracks", ...)\<close>\<close>

definition get_tracks :: "'s client \<Rightarrow> 's \<Rightarrow> response \<times> 's" where
  "get_tracks q s =
     (case q SelectTracks s of
        (Inl e, s1) \<Rightarrow> (sendError 500 ''Internal server error while fetching tracks'', s1)
      | (Inr rows, s1) \<Rightarrow> (\<lparr>status = 200, body = JsonRows rows\<rparr>, s1))"

text \<open>\<^verbatim>\<open>app.get("/tracks/:id", ...)\<close>\<close>

definition get_track :: "'s client \<Rightarrow> string \<Rightarrow> 's \<Rightarrow> response \<times> 's" where
  "get_track q idp s =
     (if \<not> isValidId idp then (sendError 400 ''Track ID must be a valid positive integer'', s)
      else
        (case q (SelectTrack (PString idp)) s of
           (Inl e, s1) \<Rightarrow> (sendError 500 ''Internal server error while fetching track'', s1)
         | (Inr rows, s1) \<Rightarrow>
             (case rows of
                [] \<Rightarrow> (sendError 404 ''Track not found'', s1)
              | r # _ \<Rightarrow> (\<lparr>status = 200, body = JsonRow r\<rparr>, s1))))"

text \<open>\<^verbatim>\<open>app.get("/playlists", ...)\<close>\<close>

definition get_playlists :: "'s client \<Rightarrow> 's \<Rightarrow> response \<times> 's" where
  "get_playlists q s =
     (case q SelectPlaylists s of
        (Inl e, s1) \<Rightarrow> (sendError 500 ''Internal server error while fetching playlists'', s1)
      | (Inr rows, s1) \<Rightarrow> (\<lparr>status = 200, body = JsonRows rows\<rparr>, s1))"

text \<open>
  \<^verbatim>\<open>app.post("/playlists", ...)\<close>. Reading \<^verbatim>\<open>newPlaylist.name\<close> for the log line throws when
  the statement returned no row, and the \<^verbatim>\<open>catch\<close> answers 500.
\<close>

definition post_playlists :: "'s client \<Rightarrow> json option \<Rightarrow> 's \<Rightarrow> response \<times> 's" where
  "post_playlists q reqbody s =
     (case reqbody of
        None \<Rightarrow> (sendError 400 ''Request body is required'', s)
      | Some b \<Rightarrow>
          if \<not> truthy (Some b) then (sendError 400 ''Request body is required'', s)
          else
            let name = get_prop b ''name''; description = get_prop b ''description''
            in if \<not> truthy name \<or> \<not> truthy description
               then (sendError 400 ''Name and description are required fields'', s)
               else
                 (case (name, description) of
                    (Some (JString n), Some (JString d)) \<Rightarrow>
                      (case q (InsertPlaylist (PString n) (PString d)) s of
                         (Inl e, s1) \<Rightarrow>
                           (sendError 500 ''Internal server error while creating playlist'', s1)
                       | (Inr rows, s1) \<Rightarrow>
                           (case rows of
                              [] \<Rightarrow>
                                (sendError 500 ''Internal server error while creating playlist'', s1)
                            | r # _ \<Rightarrow> (\<lparr>status = 201, body = JsonRow r\<rparr>, s1)))
                  | _ \<Rightarrow> (sendError 400 ''Name and description must be strings'', s)))"

text \<open>\<^verbatim>\<open>app.get("/playlists/:id", ...)\<close>\<close>

definition get_playlist :: "'s client \<Rightarrow> string \<Rightarrow> 's \<Rightarrow> response \<times> 's" where
  "get_playlist q idp s =
     (if \<not> isValidId idp then (sendError 400 ''Playlist ID must be a valid positive integer'', s)
      else
        (case q (SelectPlaylist (PString idp)) s of
           (Inl e, s1) \<Rightarrow> (sendError 500 ''Internal server error while fetching playlist'', s1)
         | (Inr rows, s1) \<Rightarrow>
             (case rows of
                [] \<Rightarrow> (sendError 404 ''Playlist not found'', s1)
              | r # _ \<Rightarrow> (\<lparr>status = 200, body = JsonRow r\<rparr>, s1))))"

text \<open>\<^verbatim>\<open>app.get("/playlists/:id/tracks", ...)\<close>\<close>

definition get_playlist_tracks :: "'s client \<Rightarrow> string \<Rightarrow> 's \<Rightarrow> response \<times> 's" where
  "get_playlist_tracks q idp s =
     (if \<not> isValidId idp then (sendError 400 ''Playlist ID must be a valid positive integer'', s)
      else
        (case q (SelectPlaylistId (PString idp)) s of
           (Inl e, s1) \<Rightarrow>
             (sendError 500 ''Internal server error while fetching playlist tracks'', s1)
         | (Inr playlistCheck, s1) \<Rightarrow>
             if playlistCheck = [] then (sendError 404 ''Playlist not found'', s1)
             else
               (case q (SelectPlaylistTracks (PString idp)) s1 of
                  (Inl e, s2) \<Rightarrow>
                    (sendError 500 ''Internal server error while fetching playlist tracks'', s2)
                | (Inr rows, s2) \<Rightarrow> (\<lparr>status = 200, body = JsonRows rows\<rparr>, s2))))"

text \<open>
  \<^verbatim>\<open>app.post("/playlists/:id/tracks", ...)\<close>. \<^verbatim>\<open>Number.isInteger\<close> holds of the integral
  Numbers only; \<^verbatim>\<open>trackId <= 0\<close> is read on a Number. The inner \<^verbatim>\<open>catch\<close> answers 400 when
  the \<^verbatim>\<open>code\<close> of the error is \<^verbatim>\<open>"23505"\<close> and throws the error on to the outer \<^verbatim>\<open>catch\<close>
  otherwise.

  Before it answers 400 for a \<^verbatim>\<open>trackId\<close> that is no positive integer, the handler logs
  \<^verbatim>\<open>`Invalid trackId: ${trackId}`\<close>, and the template literal converts \<^verbatim>\<open>trackId\<close> to a
  string. The conversion of an object calls its \<^verbatim>\<open>toString\<close>, then its \<^verbatim>\<open>valueOf\<close>. In a parsed
  document no member is callable, and the inherited \<^verbatim>\<open>valueOf\<close> returns the object itself: an
  object with a member named \<^verbatim>\<open>toString\<close> cannot be converted, and the TypeError thrown
  reaches the outer \<^verbatim>\<open>catch\<close>. An array is converted by \<^verbatim>\<open>join\<close>, which converts each element
  but \<^verbatim>\<open>null\<close>. Every other value of a document converts.
\<close>

fun toString_throws :: "json \<Rightarrow> bool" where
  "toString_throws (JObject members) = (map_of members ''toString'' \<noteq> None)"
| "toString_throws (JArray xs) = (\<exists>x\<in>set xs. toString_throws x)"
| "toString_throws _ = False"

fun Number_isInteger :: "number \<Rightarrow> bool" where
  "Number_isInteger (Integral n) = True"
| "Number_isInteger _ = False"

fun le_zero :: "number \<Rightarrow> bool" where
  "le_zero (Integral n) = (n \<le> 0)"
| "le_zero NegInfinity = True"
| "le_zero _ = False"

definition post_playlist_tracks ::
  "'s client \<Rightarrow> string \<Rightarrow> json option \<Rightarrow> 's \<Rightarrow> response \<times> 's" where
  "post_playlist_tracks q idp reqbody s =
     (if \<not> isValidId idp then (sendError 400 ''Playlist ID must be a valid positive integer'', s)
      else
        (case reqbody of
           None \<Rightarrow> (sendError 400 ''Request body is required'', s)
         | Some b \<Rightarrow>
             if \<not> truthy (Some b) then (sendError 400 ''Request body is required'', s)
             else
               (case get_prop b ''trackId'' of
                  None \<Rightarrow> (sendError 400 ''trackId is required in request body'', s)
                | Some JNull \<Rightarrow> (sendError 400 ''trackId is required in request body'', s)
                | Some (JNumber trackId) \<Rightarrow>
                    if \<not> Number_isInteger trackId \<or> le_zero trackId
                    then (sendError 400 ''trackId must be a positive integer'', s)
                    else
                      (case q (SelectPlaylistId (PString idp)) s of
                         (Inl e, s1) \<Rightarrow>
                           (sendError 500 ''Internal server error while adding track to playlist'', s1)
                       | (Inr playlistCheck, s1) \<Rightarrow>
                           if playlistCheck = [] then (sendError 404 ''Playlist not found'', s1)
                           else
                             (case q (SelectTrackId (PNumber trackId)) s1 of
                                (Inl e, s2) \<Rightarrow>
                                  (sendError 500
                                     ''Internal server error while adding track to playlist'', s2)
                              | (Inr trackCheck, s2) \<Rightarrow>
                                  if trackCheck = [] then (sendError 400 ''Track does not exist'', s2)
                                  else
                                    (case q (InsertPlaylistTrack (PString idp) (PNumber trackId)) s2 of
                                       (Inr rows, s3) \<Rightarrow>
                                         (\<lparr>status = 201, body = first_row rows\<rparr>, s3)
                                     | (Inl dbError, s3) \<Rightarrow>
                                         if err_code dbError = Some ''23505''
                                         then (sendError 400 ''Track is already in this playlist'', s3)
                                         else
                                           (sendError 500
                                              ''Internal server error while adding track to playlist'',
                                            s3))))
                | Some trackId \<Rightarrow>
                    if toString_throws trackId
                    then (sendError 500 ''Internal server error while adding track to playlist'', s)
                    else (sendError 400 ''trackId must be a positive integer'', s))))"

subsection \<open>Notions used in the statements\<close>

text \<open>
  The identifier strings of the specification: a decimal numeral of a positive integer,
  that is, digits only and at least one, the first of them not \<open>0\<close> (so no sign, no
  decimal point, no white space, no leading zero).
\<close>

definition canonical_decimal :: "string \<Rightarrow> bool" where
  "canonical_decimal s = (s \<noteq> [] \<and> list_all isDigit s \<and> hd s \<noteq> CHR ''0'')"

text \<open>A client that keeps, beside the store of \<open>q\<close>, the list of the statements it was
  asked to run, in order.\<close>

definition recording :: "'s client \<Rightarrow> ('s \<times> query list) client" where
  "recording q qu sl = (case q qu (fst sl) of (r, s1) \<Rightarrow> (r, (s1, snd sl @ [qu])))"

text \<open>The \<open>(playlist_id, track_id)\<close> pairs of the association table.\<close>

definition pairs :: "db \<Rightarrow> (int \<times> int) set" where
  "pairs st = (\<lambda>x. (pt_playlist_id x, pt_track_id x)) ` set (playlists_tracks st)"

text \<open>A request body \<^verbatim>\<open>{"name": nm, "description": d}\<close>.\<close>

definition playlist_body :: "string \<Rightarrow> string \<Rightarrow> json option" where
  "playlist_body nm d = Some (JObject [(''name'', JString nm), (''description'', JString d)])"

text \<open>A request body \<^verbatim>\<open>{"trackId": n}\<close>.\<close>

definition track_body :: "int \<Rightarrow> json option" where
  "track_body n = Some (JObject [(''trackId'', JNumber (Integral n))])"

text \<open>
  A small store: two playlists, three tracks (not stored in key order) and two
  associations, with every sequence past the keys it has handed out.
\<close>

definition demo_db :: db where
  "demo_db =
     \<lparr>playlists =
        [\<lparr>p_id = 2, p_name = ''Chill Vibes'', p_description = ''Relaxing tracks''\<rparr>,
         \<lparr>p_id = 1, p_name = ''Classic Rock Legends'', p_description = ''Timeless rock anthems''\<rparr>],
      tracks =
        [\<lparr>t_id = 3, t_name = ''Hotel California'', t_duration_ms = 391000\<rparr>,
         \<lparr>t_id = 1, t_name = ''Bohemian Rhapsody'', t_duration_ms = 355000\<rparr>,
         \<lparr>t_id = 2, t_name = ''Imagine'', t_duration_ms = 183000\<rparr>],
      playlists_tracks =
        [\<lparr>pt_id = 1, pt_playlist_id = 1, pt_track_id = 3\<rparr>,
         \<lparr>pt_id = 2, pt_playlist_id = 1, pt_track_id = 1\<rparr>],
      playlists_id_seq = 3,
      tracks_id_seq = 4,
      playlists_tracks_id_seq = 3\<rparr>"

text \<open>The same rows with the sequences of the playlists and of the associations used up.\<close>

definition exhausted_db :: db where
  "exhausted_db =
     demo_db\<lparr>playlists_id_seq := 2147483648, playlists_tracks_id_seq := 2147483648\<rparr>"

text \<open>The same rows with the sequence of the associations behind the keys in the table,
  as after loading rows with explicit keys.\<close>

definition restored_db :: db where
  "restored_db = demo_db\<lparr>playlists_tracks_id_seq := 1\<rparr>"

section \<open>Properties\<close>

subsection \<open>Decimal numerals, doubles and \<^verbatim>\<open>isValidId\<close>\<close>

declare bit_length.simps [simp del] decimal.simps [simp del]

lemma small_int_cases:
  "0 \<le> d \<Longrightarrow> d < 10 \<Longrightarrow> d \<in> {0, 1, 2, 3, 4, 5, 6, 7, 8, 9 :: int}"
  by simp arith

lemma digit_char_props:
  assumes "0 \<le> d" "d < 10"
  shows "isDigit (digit_char d)" and "digit_value (digit_char d) = d"
    and "digit_char d = CHR ''0'' \<longleftrightarrow> d = 0"
  using small_int_cases[OF assms]
  by (auto simp: digit_char_def digit_value_def isDigit_def)

lemma digit_value_props:
  assumes "isDigit c"
  shows "0 \<le> digit_value c" and "digit_value c < 10" and "digit_char (digit_value c) = c"
    and "digit_value c = 0 \<longleftrightarrow> c = CHR ''0''"
  using assms by (auto simp: isDigit_def digit_char_def digit_value_def)

lemma isDigit_not_space: "isDigit c \<Longrightarrow> \<not> isWhiteSpace c \<and> \<not> isspace c \<and> c \<noteq> CHR ''+'' \<and> c \<noteq> CHR ''-''"
  by (auto simp: isDigit_def isWhiteSpace_def isspace_def)

lemma digits_value_snoc: "digits_value (xs @ [c]) = 10 * digits_value xs + digit_value c"
  by (simp add: digits_value_def)

lemma digits_value_single: "digits_value [c] = digit_value c"
  by (simp add: digits_value_def)

lemma decimal_nonempty: "decimal n \<noteq> []"
  by (subst decimal.simps) simp

lemma decimal_digits: "list_all isDigit (decimal n)"
proof (induction n rule: decimal.induct)
  case (1 n)
  show ?case
  proof (cases "n < 10")
    case True
    then show ?thesis by (subst decimal.simps) (simp add: digit_char_props)
  next
    case False
    then show ?thesis using 1 by (subst decimal.simps) (simp add: digit_char_props)
  qed
qed

lemma digits_value_decimal: "digits_value (decimal n) = int n"
proof (induction n rule: decimal.induct)
  case (1 n)
  show ?case
  proof (cases "n < 10")
    case True
    then show ?thesis
      by (subst decimal.simps) (simp add: digits_value_single digit_char_props)
  next
    case False
    then have "digits_value (decimal (n div 10)) = int (n div 10)" using 1 by simp
    with False show ?thesis
      by (subst decimal.simps) (simp add: digits_value_snoc digit_char_props zdiv_int zmod_int)
  qed
qed

lemma hd_decimal: "0 < n \<Longrightarrow> hd (decimal n) \<noteq> CHR ''0''"
proof (induction n rule: decimal.induct)
  case (1 n)
  show ?case
  proof (cases "n < 10")
    case True
    then show ?thesis using "1.prems"
      by (subst decimal.simps) (simp add: digit_char_props)
  next
    case False
    then have "hd (decimal (n div 10)) \<noteq> CHR ''0''" using 1 by simp
    with False show ?thesis
      by (subst decimal.simps) (simp add: decimal_nonempty)
  qed
qed

lemma canonical_decimal_decimal: "0 < n \<Longrightarrow> canonical_decimal (decimal n)"
  by (simp add: canonical_decimal_def decimal_nonempty decimal_digits hd_decimal)

lemma length_decimal_small: "n < 10 \<Longrightarrow> length (decimal n) = 1"
  by (subst decimal.simps) simp

lemma digits_value_nonneg: "list_all isDigit s \<Longrightarrow> 0 \<le> digits_value s"
proof (induction s rule: rev_induct)
  case Nil
  then show ?case by (simp add: digits_value_def)
next
  case (snoc c s)
  then show ?case using digit_value_props(1)[of c] by (simp add: digits_value_snoc)
qed

lemma canonical_decimal_positive: "canonical_decimal s \<Longrightarrow> 0 < digits_value s"
proof (induction s rule: rev_induct)
  case Nil
  then show ?case by (simp add: canonical_decimal_def)
next
  case (snoc c s)
  show ?case
  proof (cases "s = []")
    case True
    with snoc.prems show ?thesis
      using digit_value_props(1,4)[of c]
      by (auto simp: canonical_decimal_def digits_value_single)
  next
    case False
    with snoc.prems have "canonical_decimal s" by (simp add: canonical_decimal_def)
    then have "0 < digits_value s" by (rule snoc.IH)
    moreover have "0 \<le> digit_value c"
      using snoc.prems by (simp add: canonical_decimal_def digit_value_props)
    ultimately show ?thesis by (simp add: digits_value_snoc)
  qed
qed

lemma decimal_digits_value:
  "canonical_decimal s \<Longrightarrow> decimal (nat (digits_value s)) = s"
proof (induction s rule: rev_induct)
  case Nil
  then show ?case by (simp add: canonical_decimal_def)
next
  case (snoc c s)
  have c: "isDigit c" using snoc.prems by (simp add: canonical_decimal_def)
  show ?case
  proof (cases "s = []")
    case True
    then show ?thesis
      using digit_value_props[OF c]
      by (subst decimal.simps) (simp add: digits_value_single nat_less_iff)
  next
    case False
    with snoc.prems have cs: "canonical_decimal s" by (simp add: canonical_decimal_def)
    then have pos: "0 < digits_value s" by (rule canonical_decimal_positive)
    let ?v = "10 * digits_value s + digit_value c"
    have d: "0 \<le> digit_value c" "digit_value c < 10"
      using digit_value_props(1,2)[OF c] .
    have "?v div 10 = digits_value s" and m: "?v mod 10 = digit_value c"
      using d by presburger+
    then have "nat ?v div 10 = nat (digits_value s)"
      using pos d by (simp add: nat_div_distrib)
    moreover have "int (nat ?v mod 10) = digit_value c"
      using pos d m by (simp add: zmod_int)
    moreover have "\<not> nat ?v < 10"
      using pos d by simp
    ultimately have "nat ?v div 10 = nat (digits_value s)"
      and "int (nat ?v mod 10) = digit_value c" and "\<not> nat ?v < 10"
      by simp_all
    then show ?thesis
      using snoc.IH[OF cs] digit_value_props(3)[OF c]
      by (subst decimal.simps) (simp add: digits_value_snoc)
  qed
qed


lemma bit_length_bounds:
  "0 < n \<Longrightarrow> 2 ^ (bit_length n - 1) \<le> n \<and> n < 2 ^ bit_length n"
proof (induction n rule: bit_length.induct)
  case (1 n)
  show ?case
  proof (cases "n div 2 = 0")
    case True
    with "1.prems" have "n = 1" by auto
    moreover have "bit_length (Suc 0) = Suc 0"
      by (simp add: bit_length.simps[of "Suc 0"] bit_length.simps[of 0])
    ultimately show ?thesis by simp
  next
    case False
    then have ih: "2 ^ (bit_length (n div 2) - 1) \<le> n div 2 \<and> n div 2 < 2 ^ bit_length (n div 2)"
      using 1 by simp
    have pos: "0 < bit_length (n div 2)"
      using False by (subst bit_length.simps) simp
    have bl: "bit_length n = Suc (bit_length (n div 2))"
      using "1.prems" by (subst bit_length.simps) simp
    have "2 ^ (bit_length n - 1) = 2 * 2 ^ (bit_length (n div 2) - 1)"
      using pos bl by (cases "bit_length (n div 2)") simp_all
    also have "\<dots> \<le> 2 * (n div 2)" using ih by simp
    also have "\<dots> \<le> n" by simp
    finally have lower: "2 ^ (bit_length n - 1) \<le> n" .
    have "n < 2 * (n div 2) + 2" by presburger
    also have "\<dots> \<le> 2 * 2 ^ bit_length (n div 2)" using ih by simp
    finally have "n < 2 ^ bit_length n" using bl by simp
    with lower show ?thesis by simp
  qed
qed

lemma to_double_small: "m < 2 ^ 53 \<Longrightarrow> to_double m = Integral m"
  by (simp add: to_double_def)

lemma to_double_large:
  assumes "2 ^ 53 \<le> m" and "to_double m = Integral v"
  shows "2 ^ 53 \<le> v"
proof -
  define n where "n = nat m"
  define e where "e = bit_length n - 53"
  define q where "q = m div 2 ^ e"
  have m: "m = int n" and npos: "0 < n" using assms(1) by (simp_all add: n_def)
  have b: "2 ^ (bit_length n - 1) \<le> n" "n < 2 ^ bit_length n"
    using bit_length_bounds[OF npos] by simp_all
  have n53: "(2::nat) ^ 53 \<le> n" using assms(1) m
    by (metis of_nat_le_iff of_nat_numeral of_nat_power)
  have bl: "53 < bit_length n"
  proof (rule ccontr)
    assume "\<not> 53 < bit_length n"
    then have "(2::nat) ^ bit_length n \<le> 2 ^ 53"
      by (intro power_increasing) simp_all
    with b(2) n53 show False by linarith
  qed
  then have e: "bit_length n - 1 = 52 + e" "0 < e" by (simp_all add: e_def)
  have "(2::int) ^ (bit_length n - 1) = 2 ^ 52 * 2 ^ e"
    unfolding e(1) by (rule power_add)
  then have "(2::int) ^ 52 * 2 ^ e = 2 ^ (bit_length n - 1)"
    by (rule sym)
  also have "\<dots> \<le> int n" using b(1)
    by (metis of_nat_le_iff of_nat_numeral of_nat_power)
  finally have "(2::int) ^ 52 * 2 ^ e \<le> m" using m by simp
  then have "(2::int) ^ 52 * 2 ^ e div 2 ^ e \<le> m div 2 ^ e"
    by (rule zdiv_mono1) simp
  then have q: "2 ^ 52 \<le> q" by (simp add: q_def)
  define q' where "q' = (if 2 ^ (e - 1) < m mod 2 ^ e \<or> (m mod 2 ^ e = 2 ^ (e - 1) \<and> odd q)
                        then q + 1 else q)"
  have q': "2 ^ 52 \<le> q'" using q by (simp add: q'_def)
  have "to_double m = (if 2 ^ 1024 \<le> q' * 2 ^ e then PosInfinity else Integral (q' * 2 ^ e))"
    using assms(1) unfolding to_double_def Let_def q'_def q_def e_def n_def by simp
  with assms(2) have v: "v = q' * 2 ^ e" by (simp split: if_splits)
  have "(2::int) ^ 53 = 2 ^ 52 * 2 ^ 1" by simp
  also have "\<dots> \<le> q' * 2 ^ e"
    using q' e(2) by (intro mult_mono power_increasing) simp_all
  finally show ?thesis using v by simp
qed

lemma to_double_exact:
  assumes "to_double c = Integral v" and "v < 2 ^ 53"
  shows "c = v"
proof (cases "c < 2 ^ 53")
  case True
  then show ?thesis using assms(1) by (simp add: to_double_small)
next
  case False
  then have "2 ^ 53 \<le> v" using to_double_large[of c v] assms(1) by simp
  with assms(2) show ?thesis by simp
qed

lemma shortest_search_sound:
  "0 < v \<Longrightarrow> 0 < shortest_search v j \<and>
     (shortest_search v j = v \<or> to_double (shortest_search v j) = Integral v)"
proof (induction j)
  case 0
  then show ?case by simp
next
  case (Suc j)
  have "0 \<le> v div 10 ^ Suc j * 10 ^ Suc j"
    using Suc.prems by (simp add: pos_imp_zdiv_nonneg_iff)
  then have "0 < v div 10 ^ Suc j * 10 ^ Suc j + 10 ^ Suc j"
    by (smt (verit) zero_less_power)
  with Suc show ?case
    by (simp add: Let_def del: power_Suc)
qed

lemma shortest_decimal_exact:
  assumes "0 < v" and "v < 2 ^ 53"
  shows "shortest_decimal v = v"
  using shortest_search_sound[OF assms(1)] to_double_exact[OF _ assms(2)]
  unfolding shortest_decimal_def by blast

lemma shortest_decimal_positive: "0 < v \<Longrightarrow> 0 < shortest_decimal v"
  using shortest_search_sound[of v] unfolding shortest_decimal_def by blast

lemma positive_toString_exact:
  assumes "0 < v" and "v < 2 ^ 53"
  shows "positive_toString v = decimal (nat v)"
proof -
  have "v < 10 ^ 21" using assms(2) by simp
  then show ?thesis
    by (simp add: positive_toString_def shortest_decimal_exact[OF assms])
qed

lemma canonical_decimal_Cons:
  "canonical_decimal s \<Longrightarrow> \<exists>c cs. s = c # cs \<and> isDigit c \<and> list_all isDigit cs"
  by (cases s) (simp_all add: canonical_decimal_def)

lemma parseInt_canonical:
  assumes "canonical_decimal s"
  shows "parseInt s = to_double (digits_value s)"
proof -
  obtain c cs where s: "s = c # cs" and c: "isDigit c" and cs: "list_all isDigit cs"
    using canonical_decimal_Cons[OF assms] by blast
  have tw: "takeWhile isDigit cs = cs"
    using cs by (simp add: takeWhile_eq_all_conv list_all_iff)
  show ?thesis
    using isDigit_not_space[OF c] c by (simp add: parseInt_def s tw)
qed

lemma int4in_canonical:
  assumes "canonical_decimal s"
  shows "int4in s = (if digits_value s \<le> 2147483647 then Inr (digits_value s)
                     else Inl numeric_value_out_of_range)"
proof -
  obtain c cs where s: "s = c # cs" and c: "isDigit c" and cs: "list_all isDigit cs"
    using canonical_decimal_Cons[OF assms] by blast
  have tw: "takeWhile isDigit cs = cs" and dw: "dropWhile isDigit cs = []"
    using cs by (simp_all add: takeWhile_eq_all_conv list_all_iff)
  have "0 < digits_value (c # cs)"
    using canonical_decimal_positive[OF assms] by (simp add: s)
  then show ?thesis
    using isDigit_not_space[OF c] c by (simp add: int4in_def s int4_def tw dw)
qed

lemma parseInt_leading_digit:
  assumes "isDigit d" and "r \<noteq> []" and "\<not> isDigit (hd r)"
  shows "parseInt (d # r) = Integral (digit_value d)"
proof -
  obtain x xs where r: "r = x # xs" using assms(2) by (cases r) auto
  have "digit_value d < 2 ^ 53" using digit_value_props(2)[OF assms(1)] by simp
  then show ?thesis
    using isDigit_not_space[OF assms(1)] assms(1,3)
    by (simp add: parseInt_def r digits_value_single to_double_small)
qed

lemma parseInt_exponential:
  assumes "0 < c"
  shows "\<exists>k. parseInt (exponential c) = Integral k \<and> k < 10"
proof -
  define ds where "ds = decimal (nat c)"
  define r where "r = (if strip_zeros (tl ds) = [] then [] else CHR ''.'' # strip_zeros (tl ds))
                       @ ''e+'' @ decimal (length ds - 1)"
  have e: "exponential c = hd ds # r"
    by (simp add: exponential_def Let_def ds_def r_def)
  have d: "isDigit (hd ds)"
    using decimal_digits[of "nat c"] decimal_nonempty[of "nat c"]
    by (cases ds) (simp_all add: ds_def)
  have "r \<noteq> []" and "\<not> isDigit (hd r)"
    by (simp_all add: r_def isDigit_def)
  then have "parseInt (exponential c) = Integral (digit_value (hd ds))"
    unfolding e using d by (intro parseInt_leading_digit)
  then show ?thesis using digit_value_props(2)[OF d] by blast
qed

lemma isValidId_canonical:
  assumes "isValidId s"
  shows "canonical_decimal s"
proof (cases "parseInt s")
  case NaN
  with assms show ?thesis by (simp add: isValidId_def)
next
  case PosInfinity
  with assms have "s = ''Infinity''" by (simp add: isValidId_def)
  then have "parseInt s = NaN" by (simp add: parseInt_def isWhiteSpace_def isDigit_def)
  with PosInfinity show ?thesis by simp
next
  case NegInfinity
  with assms show ?thesis by (simp add: isValidId_def)
next
  case (Integral n)
  with assms have n: "0 < n" and s: "positive_toString n = s"
    by (auto simp: isValidId_def split: if_splits)
  define c where "c = shortest_decimal n"
  have c: "0 < c" unfolding c_def using n by (rule shortest_decimal_positive)
  show ?thesis
  proof (cases "c < 10 ^ 21")
    case True
    then have "s = decimal (nat c)" using s by (simp add: positive_toString_def c_def)
    then show ?thesis using c by (simp add: canonical_decimal_decimal)
  next
    case False
    then have "s = exponential c" using s by (simp add: positive_toString_def c_def)
    then obtain k where "parseInt s = Integral k" and "k < 10"
      using parseInt_exponential[OF c] by blast
    with Integral have "n < 10" by simp
    then have "length (decimal (nat n)) = 1" using n by (simp add: length_decimal_small)
    then have "c = n" by (simp add: c_def shortest_decimal_def)
    with False \<open>n < 10\<close> show ?thesis by simp
  qed
qed

lemma canonical_isValidId:
  assumes "canonical_decimal s" and "digits_value s < 2 ^ 53"
  shows "isValidId s"
proof -
  have pos: "0 < digits_value s" using assms(1) by (rule canonical_decimal_positive)
  have "parseInt s = Integral (digits_value s)"
    using parseInt_canonical[OF assms(1)] to_double_small[OF assms(2)] by simp
  moreover have "positive_toString (digits_value s) = s"
    using positive_toString_exact[OF pos assms(2)] decimal_digits_value[OF assms(1)] by simp
  ultimately show ?thesis using pos by (simp add: isValidId_def)
qed

lemma to_double_of_positive:
  assumes "0 < m"
  shows "\<not> isNaN (to_double m) \<and> is_positive (to_double m)"
proof (cases "m < 2 ^ 53")
  case True
  then show ?thesis using assms by (simp add: to_double_small)
next
  case False
  then have m: "2 ^ 53 \<le> m" by simp
  show ?thesis
  proof (cases "to_double m")
    case (Integral v)
    then have "2 ^ 53 \<le> v" using to_double_large[OF m] by simp
    then have "0 < v" by simp
    with Integral show ?thesis by simp
  next
    case NaN
    then show ?thesis using m by (simp add: to_double_def Let_def split: if_splits)
  next
    case NegInfinity
    then show ?thesis using m by (simp add: to_double_def Let_def split: if_splits)
  qed simp
qed

lemma isValidId_round_trip:
  "isValidId s \<longleftrightarrow>
     canonical_decimal s \<and> number_toString (to_double (digits_value s)) = s"
proof
  assume v: "isValidId s"
  then have c: "canonical_decimal s" by (rule isValidId_canonical)
  with v show "canonical_decimal s \<and> number_toString (to_double (digits_value s)) = s"
    by (simp add: isValidId_def parseInt_canonical Let_def)
next
  assume a: "canonical_decimal s \<and> number_toString (to_double (digits_value s)) = s"
  then have "0 < digits_value s" by (simp add: canonical_decimal_positive)
  then show "isValidId s"
    using a to_double_of_positive[of "digits_value s"]
    by (simp add: isValidId_def parseInt_canonical Let_def)
qed

lemma digits_value_2p53p1: "digits_value ''9007199254740993'' = 9007199254740993"
  by (simp add: digits_value_def digit_value_def)

lemma canonical_2p53p1: "canonical_decimal ''9007199254740993''"
  by (simp add: canonical_decimal_def isDigit_def)

lemma to_double_2p53p1: "to_double 9007199254740993 = Integral 9007199254740992"
  by (simp add: to_double_def Let_def bit_length.simps)

lemma shortest_2p53: "shortest_decimal 9007199254740992 = 9007199254740992"
  by (simp add: shortest_decimal_def decimal.simps to_double_def Let_def bit_length.simps)

text \<open>
  Claim C3, as amended. \<^verbatim>\<open>isValidId\<close> accepts only decimal numerals of positive integers
  (no leading zero, sign, decimal point or white space), and it accepts every such numeral
  whose value is below \<open>2^53\<close>. In general it accepts a string if and only if the string
  is such a numeral and is what \<^verbatim>\<open>toString\<close> prints for the double the numeral rounds to.
  In particular it rejects \<^verbatim>\<open>"0"\<close>, \<^verbatim>\<open>"-1"\<close>, \<^verbatim>\<open>"1.5"\<close>, \<^verbatim>\<open>"abc"\<close>, \<^verbatim>\<open>"01"\<close> and the
  empty string.
\<close>

theorem isValidId_accepts_exactly:
  "(isValidId s \<longrightarrow> canonical_decimal s) \<and>
   (canonical_decimal s \<and> digits_value s < 2 ^ 53 \<longrightarrow> isValidId s) \<and>
   (isValidId s \<longleftrightarrow>
      canonical_decimal s \<and> number_toString (to_double (digits_value s)) = s) \<and>
   \<not> isValidId ''0'' \<and> \<not> isValidId ''-1'' \<and> \<not> isValidId ''1.5'' \<and>
   \<not> isValidId ''abc'' \<and> \<not> isValidId ''01'' \<and> \<not> isValidId []"
proof -
  have "\<not> canonical_decimal ''0''" "\<not> canonical_decimal ''-1''" "\<not> canonical_decimal ''1.5''"
    "\<not> canonical_decimal ''abc''" "\<not> canonical_decimal ''01''" "\<not> canonical_decimal []"
    by (simp_all add: canonical_decimal_def isDigit_def)
  then show ?thesis
    using isValidId_canonical canonical_isValidId isValidId_round_trip[of s] by blast
qed

theorem isValidId_accepts_exactly_witness:
  "canonical_decimal ''42'' \<and> digits_value ''42'' < 2 ^ 53 \<and> isValidId ''42''"
proof -
  have h: "canonical_decimal ''42'' \<and> digits_value ''42'' < 2 ^ 53"
    by (simp add: canonical_decimal_def isDigit_def digits_value_def digit_value_def)
  then show ?thesis using isValidId_accepts_exactly[of "''42''"] by blast
qed

text \<open>
  Claim C3 as stated fails: \<^verbatim>\<open>"9007199254740993"\<close> is a positive-integer numeral with no
  leading zero, and \<^verbatim>\<open>isValidId\<close> rejects it, because \<^verbatim>\<open>parseInt\<close> rounds it to the double
  \<open>9007199254740992\<close>, which prints differently.
\<close>

theorem isValidId_rejects_9007199254740993:
  "canonical_decimal ''9007199254740993'' \<and> \<not> isValidId ''9007199254740993''"
proof -
  have "parseInt ''9007199254740993'' = Integral 9007199254740992"
    using parseInt_canonical[OF canonical_2p53p1] digits_value_2p53p1 to_double_2p53p1 by simp
  moreover have "positive_toString 9007199254740992 = ''9007199254740992''"
    by (simp add: positive_toString_def shortest_2p53 decimal.simps digit_char_def)
  ultimately show ?thesis
    using canonical_2p53p1 by (simp add: isValidId_def)
qed

subsection \<open>The statements of the store\<close>

lemma pg_select_state:
  "snd (pg_query SelectTracks st) = st"
  "snd (pg_query (SelectTrack p) st) = st"
  "snd (pg_query SelectPlaylists st) = st"
  "snd (pg_query (SelectPlaylist p) st) = st"
  "snd (pg_query (SelectPlaylistId p) st) = st"
  "snd (pg_query (SelectPlaylistTracks p) st) = st"
  "snd (pg_query (SelectTrackId p) st) = st"
  by (simp_all split: sum.splits)

lemma pg_select_stateD:
  "pg_query SelectTracks st = (r, st') \<Longrightarrow> st' = st"
  "pg_query (SelectTrack p) st = (r, st') \<Longrightarrow> st' = st"
  "pg_query SelectPlaylists st = (r, st') \<Longrightarrow> st' = st"
  "pg_query (SelectPlaylist p) st = (r, st') \<Longrightarrow> st' = st"
  "pg_query (SelectPlaylistId p) st = (r, st') \<Longrightarrow> st' = st"
  "pg_query (SelectPlaylistTracks p) st = (r, st') \<Longrightarrow> st' = st"
  "pg_query (SelectTrackId p) st = (r, st') \<Longrightarrow> st' = st"
  using pg_select_state(1)[of st] pg_select_state(2)[of p st] pg_select_state(3)[of st]
    pg_select_state(4)[of p st] pg_select_state(5)[of p st] pg_select_state(6)[of p st]
    pg_select_state(7)[of p st]
  by simp_all

lemma pg_insert_playlist_track_failed:
  "pg_query (InsertPlaylistTrack a b) st = (Inl e, st') \<Longrightarrow>
     playlists st' = playlists st \<and> tracks st' = tracks st \<and>
     playlists_tracks st' = playlists_tracks st \<and>
     playlists_id_seq st' = playlists_id_seq st \<and> tracks_id_seq st' = tracks_id_seq st"
  by (auto simp: Let_def split: sum.splits if_splits)

text \<open>Every statement keeps what the schema guarantees.\<close>

lemma if_chain_Inr:
  "(if A then Inl x else if B then Inl y else Inr w) = Inr v \<Longrightarrow> \<not> B \<and> w = v"
  by (simp split: if_split_asm)

lemma int4in_Inr: "int4in s = Inr v \<Longrightarrow> int4 v"
  unfolding int4in_def Let_def by (drule if_chain_Inr) blast

lemma wf_db_seq_update:
  assumes "wf_db st"
  shows "wf_db (st\<lparr>playlists_id_seq := playlists_id_seq st + 1\<rparr>)"
    and "wf_db (st\<lparr>playlists_tracks_id_seq := playlists_tracks_id_seq st + 1\<rparr>)"
  using assms by (simp_all add: wf_db_def)

lemma wf_db_playlist_added:
  assumes "wf_db st" and "playlists_id_seq st \<le> 2147483647"
    and "playlists_id_seq st \<notin> p_id ` set (playlists st)"
  shows "wf_db (st\<lparr>playlists_id_seq := playlists_id_seq st + 1,
           playlists := playlists st @
             [\<lparr>p_id = playlists_id_seq st, p_name = nm, p_description = d\<rparr>]\<rparr>)"
proof -
  have "list_all (\<lambda>pt. pt_playlist_id pt \<in> insert (playlists_id_seq st) (p_id ` set (playlists st)) \<and>
                     pt_track_id pt \<in> t_id ` set (tracks st)) (playlists_tracks st)"
    using assms(1) unfolding wf_db_def list_all_iff by blast
  then show ?thesis
    using assms by (simp add: wf_db_def int4_def)
qed

lemma wf_db_association_added:
  assumes "wf_db st" and "playlists_tracks_id_seq st \<le> 2147483647"
    and "playlists_tracks_id_seq st \<notin> pt_id ` set (playlists_tracks st)"
    and "int4 pl" and "int4 tr"
    and "(pl, tr) \<notin> (\<lambda>x. (pt_playlist_id x, pt_track_id x)) ` set (playlists_tracks st)"
    and "pl \<in> p_id ` set (playlists st)" and "tr \<in> t_id ` set (tracks st)"
  shows "wf_db (st\<lparr>playlists_tracks_id_seq := playlists_tracks_id_seq st + 1,
           playlists_tracks := playlists_tracks st @
             [\<lparr>pt_id = playlists_tracks_id_seq st, pt_playlist_id = pl, pt_track_id = tr\<rparr>]\<rparr>)"
  using assms by (simp add: wf_db_def int4_def)

lemma pg_insert_playlist_preserves_wf_db:
  assumes "wf_db st"
  shows "wf_db (snd (pg_query (InsertPlaylist pn pd) st))"
proof (cases "textin (prepareValue pn)")
  case (Inl e)
  then show ?thesis using assms by (simp add: pg_query.simps)
next
  case nm: (Inr nm)
  show ?thesis
  proof (cases "textin (prepareValue pd)")
    case (Inl e)
    then show ?thesis using assms nm by (simp add: pg_query.simps)
  next
    case d: (Inr d)
    show ?thesis
    proof (cases "2147483647 < playlists_id_seq st")
      case True
      then show ?thesis using assms nm d by (simp add: pg_query.simps nextval_def)
    next
      case False
      then have le: "playlists_id_seq st \<le> 2147483647" by simp
      show ?thesis
      proof (cases "playlists_id_seq st \<in> p_id ` set (playlists st)")
        case True
        then show ?thesis
          using nm d False
          by (simp add: pg_query.simps nextval_def Let_def wf_db_seq_update(1)[OF assms])
      next
        case fresh: False
        then show ?thesis
          using nm d False
          by (simp add: pg_query.simps nextval_def Let_def
              wf_db_playlist_added[OF assms le fresh])
      qed
    qed
  qed
qed

lemma pg_insert_playlist_track_preserves_wf_db:
  assumes "wf_db st"
  shows "wf_db (snd (pg_query (InsertPlaylistTrack pp pt) st))"
proof (cases "int4in (prepareValue pp)")
  case (Inl e)
  then show ?thesis using assms by (simp add: pg_query.simps)
next
  case pl: (Inr pl)
  show ?thesis
  proof (cases "int4in (prepareValue pt)")
    case (Inl e)
    then show ?thesis using assms pl by (simp add: pg_query.simps)
  next
    case tr: (Inr tr)
    have i: "int4 pl" "int4 tr" using pl tr by (auto dest: int4in_Inr)
    show ?thesis
    proof (cases "2147483647 < playlists_tracks_id_seq st")
      case True
      then show ?thesis using assms pl tr by (simp add: pg_query.simps nextval_def)
    next
      case False
      then have le: "playlists_tracks_id_seq st \<le> 2147483647" by simp
      let ?ok = "playlists_tracks_id_seq st \<notin> pt_id ` set (playlists_tracks st) \<and>
          (pl, tr) \<notin> (\<lambda>x. (pt_playlist_id x, pt_track_id x)) ` set (playlists_tracks st) \<and>
          pl \<in> p_id ` set (playlists st) \<and> tr \<in> t_id ` set (tracks st)"
      show ?thesis
      proof (cases ?ok)
        case True
        then have "wf_db (st\<lparr>playlists_tracks_id_seq := playlists_tracks_id_seq st + 1,
           playlists_tracks := playlists_tracks st @
             [\<lparr>pt_id = playlists_tracks_id_seq st, pt_playlist_id = pl, pt_track_id = tr\<rparr>]\<rparr>)"
          using wf_db_association_added[OF assms le _ i] by blast
        then show ?thesis
          using pl tr False True by (simp add: pg_query.simps nextval_def Let_def)
      next
        case no: False
        have "snd (pg_query (InsertPlaylistTrack pp pt) st) =
            st\<lparr>playlists_tracks_id_seq := playlists_tracks_id_seq st + 1\<rparr>"
          using pl tr False no by (auto simp: pg_query.simps nextval_def Let_def)
        then show ?thesis by (simp add: wf_db_seq_update(2)[OF assms])
      qed
    qed
  qed
qed

lemma pg_query_preserves_wf_db:
  assumes "wf_db st"
  shows "wf_db (snd (pg_query qu st))"
  using assms
  by (cases qu)
     (simp_all del: pg_query.simps add: pg_select_state pg_insert_playlist_preserves_wf_db
        pg_insert_playlist_track_preserves_wf_db)

subsection \<open>The reading handlers\<close>

text \<open>
  Claim C10. Each of the five GET handlers leaves the store exactly as it found it,
  whatever the identifier and whatever the state: every statement it runs is a
  \<^verbatim>\<open>SELECT\<close>.
\<close>

theorem get_handlers_leave_store_unchanged:
  "snd (get_tracks pg_query st) = st \<and>
   snd (get_track pg_query idp st) = st \<and>
   snd (get_playlists pg_query st) = st \<and>
   snd (get_playlist pg_query idp st) = st \<and>
   snd (get_playlist_tracks pg_query idp st) = st"
proof (intro conjI)
  show "snd (get_tracks pg_query st) = st"
    by (auto simp: get_tracks_def split: prod.splits sum.splits dest: pg_select_stateD)
  show "snd (get_track pg_query idp st) = st"
    by (auto simp: get_track_def split: prod.splits sum.splits list.splits dest: pg_select_stateD)
  show "snd (get_playlists pg_query st) = st"
    by (auto simp: get_playlists_def split: prod.splits sum.splits dest: pg_select_stateD)
  show "snd (get_playlist pg_query idp st) = st"
    by (auto simp: get_playlist_def split: prod.splits sum.splits list.splits dest: pg_select_stateD)
  show "snd (get_playlist_tracks pg_query idp st) = st"
    by (auto simp: get_playlist_tracks_def split: prod.splits sum.splits dest: pg_select_stateD)
qed

subsection \<open>Listings, additions and failures\<close>

lemma length_filter_key_le_1:
  "distinct (map f xs) \<Longrightarrow> length (filter (\<lambda>x. f x = v) xs) \<le> 1"
proof (induction xs)
  case Nil
  then show ?case by simp
next
  case (Cons a xs)
  show ?case
  proof (cases "f a = v")
    case True
    then have "filter (\<lambda>x. f x = v) xs = []"
      using Cons.prems by (simp add: filter_empty_conv) blast
    with True show ?thesis by simp
  next
    case False
    then show ?thesis using Cons by simp
  qed
qed

lemma mset_eq_short:
  "mset a = mset b \<Longrightarrow> length a \<le> 1 \<Longrightarrow> a = b"
  by (cases a; cases b) (auto split: if_splits)

lemma sort_key_distinct_keys_unique:
  assumes "mset ys = mset xs" and "distinct (map f xs)"
  shows "sort_key f ys = sort_key f xs"
proof (rule properties_for_sort_key)
  show "mset (sort_key f xs) = mset ys" using assms(1) by simp
  show "sorted (map f (sort_key f xs))" by simp
next
  fix k
  have "mset (map f (sort_key f xs)) = mset (map f xs)" by simp
  then have "distinct (map f (sort_key f xs))"
    using assms(2) by (metis mset_eq_imp_distinct_iff)
  then have "length (filter (\<lambda>x. f x = f k) (sort_key f xs)) \<le> 1"
    by (rule length_filter_key_le_1)
  moreover have "(\<lambda>x. f x = f k) = (\<lambda>x. f k = f x)" by auto
  ultimately have "length (filter (\<lambda>x. f k = f x) (sort_key f xs)) \<le> 1" by simp
  moreover have "mset (filter (\<lambda>x. f k = f x) (sort_key f xs)) = mset (filter (\<lambda>x. f k = f x) ys)"
    using assms(1) by simp
  ultimately show "filter (\<lambda>x. f k = f x) (sort_key f xs) = filter (\<lambda>x. f k = f x) ys"
    by (rule mset_eq_short[rotated])
qed

text \<open>
  Claim C8. \<^verbatim>\<open>GET /tracks\<close> and \<^verbatim>\<open>GET /playlists\<close> answer 200 with every stored row,
  sorted by identifier ascending. The answer does not depend on the order in which the
  rows were inserted: two tables with the same rows (and the primary key the schema
  declares) give the same answer.
\<close>

theorem listings_ordered_by_id:
  "fst (get_tracks pg_query st) =
     \<lparr>status = 200, body = JsonRows (map TrackRow (sort_key t_id (tracks st)))\<rparr> \<and>
   sorted (map t_id (sort_key t_id (tracks st))) \<and>
   mset (sort_key t_id (tracks st)) = mset (tracks st) \<and>
   fst (get_playlists pg_query st) =
     \<lparr>status = 200, body = JsonRows (map PlaylistRow (sort_key p_id (playlists st)))\<rparr> \<and>
   sorted (map p_id (sort_key p_id (playlists st))) \<and>
   mset (sort_key p_id (playlists st)) = mset (playlists st) \<and>
   (distinct (map t_id (tracks st)) \<and> mset (tracks st') = mset (tracks st) \<longrightarrow>
      fst (get_tracks pg_query st') = fst (get_tracks pg_query st)) \<and>
   (distinct (map p_id (playlists st)) \<and> mset (playlists st') = mset (playlists st) \<longrightarrow>
      fst (get_playlists pg_query st') = fst (get_playlists pg_query st))"
proof -
  have t: "fst (get_tracks pg_query s) =
      \<lparr>status = 200, body = JsonRows (map TrackRow (sort_key t_id (tracks s)))\<rparr>" for s
    by (simp add: get_tracks_def)
  have p: "fst (get_playlists pg_query s) =
      \<lparr>status = 200, body = JsonRows (map PlaylistRow (sort_key p_id (playlists s)))\<rparr>" for s
    by (simp add: get_playlists_def)
  show ?thesis
    using sort_key_distinct_keys_unique[of "tracks st'" "tracks st" t_id]
      sort_key_distinct_keys_unique[of "playlists st'" "playlists st" p_id]
    by (simp add: t p)
qed

lemma demo_db_wf: "wf_db demo_db"
  by (simp add: wf_db_def demo_db_def int4_def)

theorem listings_ordered_by_id_witness:
  "distinct (map t_id (tracks demo_db)) \<and>
   mset (tracks (demo_db\<lparr>tracks := rev (tracks demo_db)\<rparr>)) = mset (tracks demo_db) \<and>
   distinct (map p_id (playlists demo_db)) \<and>
   mset (playlists (demo_db\<lparr>playlists := rev (playlists demo_db)\<rparr>)) = mset (playlists demo_db) \<and>
   fst (get_tracks pg_query (demo_db\<lparr>tracks := rev (tracks demo_db)\<rparr>)) =
     \<lparr>status = 200, body = JsonRows (map TrackRow
        [\<lparr>t_id = 1, t_name = ''Bohemian Rhapsody'', t_duration_ms = 355000\<rparr>,
         \<lparr>t_id = 2, t_name = ''Imagine'', t_duration_ms = 183000\<rparr>,
         \<lparr>t_id = 3, t_name = ''Hotel California'', t_duration_ms = 391000\<rparr>])\<rparr> \<and>
   fst (get_playlists pg_query (demo_db\<lparr>playlists := rev (playlists demo_db)\<rparr>)) =
     \<lparr>status = 200, body = JsonRows (map PlaylistRow
        [\<lparr>p_id = 1, p_name = ''Classic Rock Legends'', p_description = ''Timeless rock anthems''\<rparr>,
         \<lparr>p_id = 2, p_name = ''Chill Vibes'', p_description = ''Relaxing tracks''\<rparr>])\<rparr>"
proof -
  have h: "distinct (map t_id (tracks demo_db)) \<and>
      mset (tracks (demo_db\<lparr>tracks := rev (tracks demo_db)\<rparr>)) = mset (tracks demo_db)"
    "distinct (map p_id (playlists demo_db)) \<and>
      mset (playlists (demo_db\<lparr>playlists := rev (playlists demo_db)\<rparr>)) = mset (playlists demo_db)"
    by (simp_all add: demo_db_def)
  have "fst (get_tracks pg_query demo_db) =
     \<lparr>status = 200, body = JsonRows (map TrackRow
        [\<lparr>t_id = 1, t_name = ''Bohemian Rhapsody'', t_duration_ms = 355000\<rparr>,
         \<lparr>t_id = 2, t_name = ''Imagine'', t_duration_ms = 183000\<rparr>,
         \<lparr>t_id = 3, t_name = ''Hotel California'', t_duration_ms = 391000\<rparr>])\<rparr>"
    "fst (get_playlists pg_query demo_db) =
     \<lparr>status = 200, body = JsonRows (map PlaylistRow
        [\<lparr>p_id = 1, p_name = ''Classic Rock Legends'', p_description = ''Timeless rock anthems''\<rparr>,
         \<lparr>p_id = 2, p_name = ''Chill Vibes'', p_description = ''Relaxing tracks''\<rparr>])\<rparr>"
    by (simp_all add: get_tracks_def get_playlists_def demo_db_def)
  then show ?thesis
    using h listings_ordered_by_id[of demo_db "demo_db\<lparr>tracks := rev (tracks demo_db)\<rparr>"]
      listings_ordered_by_id[of demo_db "demo_db\<lparr>playlists := rev (playlists demo_db)\<rparr>"]
    by simp
qed

lemma isValidId_1: "isValidId ''1''" and isValidId_2: "isValidId ''2''"
  by (rule canonical_isValidId; simp add: canonical_decimal_def isDigit_def digits_value_def digit_value_def)+

lemma int4in_id:
  assumes "isValidId idp"
  shows "int4in idp = (if digits_value idp \<le> 2147483647 then Inr (digits_value idp)
                       else Inl numeric_value_out_of_range)"
  using assms by (intro int4in_canonical isValidId_canonical)

lemma number_toString_positive:
  assumes "0 < n" and "n < 2 ^ 53"
  shows "number_toString (Integral n) = decimal (nat n)"
  using assms by (simp add: positive_toString_exact)

lemma int4in_number:
  assumes "0 < n" and "n < 2 ^ 53"
  shows "int4in (number_toString (Integral n)) =
           (if n \<le> 2147483647 then Inr n else Inl numeric_value_out_of_range)"
proof -
  have "canonical_decimal (decimal (nat n))"
    using assms(1) by (simp add: canonical_decimal_decimal)
  then show ?thesis
    using assms by (simp add: positive_toString_exact int4in_canonical digits_value_decimal)
qed

lemma int4in_number_small:
  assumes "0 < n" and "n \<le> 2147483647"
  shows "int4in (positive_toString n) = Inr n"
proof -
  have "n < 2 ^ 53" using assms(2) by simp
  then show ?thesis using int4in_number[OF assms(1)] assms by simp
qed

lemma pg_select_playlist_id:
  assumes "isValidId idp" and "digits_value idp \<le> 2147483647"
  shows "pg_query (SelectPlaylistId (PString idp)) st =
           (Inr (map (\<lambda>p. IdRow (p_id p)) (filter (\<lambda>p. p_id p = digits_value idp) (playlists st))), st)"
  using assms by (simp add: int4in_id)

lemma pg_select_track_id:
  assumes "0 < n" and "n \<le> 2147483647"
  shows "pg_query (SelectTrackId (PNumber (Integral n))) st =
           (Inr (map (\<lambda>t. IdRow (t_id t)) (filter (\<lambda>t. t_id t = n) (tracks st))), st)"
  using assms by (simp add: int4in_number_small)

lemma filter_key_empty: "filter (\<lambda>x. f x = k) xs = [] \<longleftrightarrow> k \<notin> f ` set xs"
  by (auto simp: filter_empty_conv)

lemma pg_insert_playlist_track:
  assumes "isValidId idp" and "digits_value idp \<le> 2147483647" and "0 < n" and "n \<le> 2147483647"
  shows "pg_query (InsertPlaylistTrack (PString idp) (PNumber (Integral n))) st =
     (let i = playlists_tracks_id_seq st;
          st1 = st\<lparr>playlists_tracks_id_seq := i + 1\<rparr>;
          r = \<lparr>pt_id = i, pt_playlist_id = digits_value idp, pt_track_id = n\<rparr>
      in if 2147483647 < i then (Inl sequence_generator_limit_exceeded, st)
         else if i \<in> pt_id ` set (playlists_tracks st)
         then (Inl (unique_violation ''playlists_tracks_pkey''), st1)
         else if (digits_value idp, n) \<in> pairs st
         then (Inl (unique_violation ''playlists_tracks_playlist_id_track_id_key''), st1)
         else if digits_value idp \<notin> p_id ` set (playlists st)
         then (Inl (foreign_key_violation ''playlists_tracks_playlist_id_fkey''), st1)
         else if n \<notin> t_id ` set (tracks st)
         then (Inl (foreign_key_violation ''playlists_tracks_track_id_fkey''), st1)
         else (Inr [PlaylistTrackRow r], st1\<lparr>playlists_tracks := playlists_tracks st @ [r]\<rparr>))"
  using assms by (simp add: int4in_id int4in_number_small nextval_def Let_def pairs_def)

text \<open>The handler on the store, for a request that passes validation.\<close>

lemma get_prop_truthy: "get_prop b k = Some v \<Longrightarrow> truthy (Some b)"
  by (cases b) simp_all

lemma get_prop_track_body [simp]:
  "get_prop (JObject [(''trackId'', JNumber (Integral n))]) ''trackId'' = Some (JNumber (Integral n))"
  by simp

lemma post_playlist_tracks_pg:
  assumes "isValidId idp" and "0 < n" and "n < 2 ^ 53"
    and "get_prop b ''trackId'' = Some (JNumber (Integral n))"
  shows "post_playlist_tracks pg_query idp (Some b) st =
     (if 2147483647 < digits_value idp
      then (sendError 500 ''Internal server error while adding track to playlist'', st)
      else if digits_value idp \<notin> p_id ` set (playlists st)
      then (sendError 404 ''Playlist not found'', st)
      else if 2147483647 < n
      then (sendError 500 ''Internal server error while adding track to playlist'', st)
      else if n \<notin> t_id ` set (tracks st)
      then (sendError 400 ''Track does not exist'', st)
      else
        (case pg_query (InsertPlaylistTrack (PString idp) (PNumber (Integral n))) st of
           (Inr rows, s3) \<Rightarrow> (\<lparr>status = 201, body = first_row rows\<rparr>, s3)
         | (Inl dbError, s3) \<Rightarrow>
             if err_code dbError = Some ''23505''
             then (sendError 400 ''Track is already in this playlist'', s3)
             else (sendError 500 ''Internal server error while adding track to playlist'', s3)))"
proof -
  have n: "int4in (positive_toString n) =
      (if n \<le> 2147483647 then Inr n else Inl numeric_value_out_of_range)"
    using int4in_number[OF assms(2,3)] assms(2) by simp
  show ?thesis
    using assms(1,2,4) get_prop_truthy[OF assms(4)]
    by (simp add: post_playlist_tracks_def int4in_id n
        filter_key_empty del: pg_query.simps(9)
        split: prod.splits sum.splits)
qed

declare pg_query.simps [simp del]

lemma wf_db_playlist_int4:
  "wf_db st \<Longrightarrow> i \<in> p_id ` set (playlists st) \<Longrightarrow> i \<le> 2147483647"
  by (auto simp: wf_db_def list_all_iff int4_def)

lemma wf_db_track_int4:
  "wf_db st \<Longrightarrow> i \<in> t_id ` set (tracks st) \<Longrightarrow> i \<le> 2147483647"
  by (auto simp: wf_db_def list_all_iff int4_def)

lemma digits_value_1 [simp]: "digits_value ''1'' = 1" and digits_value_2 [simp]: "digits_value ''2'' = 2"
  by (simp_all add: digits_value_def digit_value_def)

text \<open>
  Claim C4, as amended. \<^verbatim>\<open>POST /playlists/:id/tracks\<close> with a valid identifier of an
  existing playlist and a \<^verbatim>\<open>trackId\<close> that is a positive integer not above 2147483647 and
  the key of no track answers 400 \<^verbatim>\<open>Track does not exist\<close> (not 404), and the store stays
  as it was.
\<close>

theorem missing_track_is_bad_request:
  assumes "wf_db st" and "isValidId idp"
    and "digits_value idp \<in> p_id ` set (playlists st)"
    and "get_prop b ''trackId'' = Some (JNumber (Integral n))"
    and "0 < n" and "n \<le> 2147483647"
    and "n \<notin> t_id ` set (tracks st)"
  shows "post_playlist_tracks pg_query idp (Some b) st =
           (sendError 400 ''Track does not exist'', st)"
proof -
  have "n < 2 ^ 53" using assms(6) by simp
  moreover have "digits_value idp \<le> 2147483647"
    using assms(1,3) by (rule wf_db_playlist_int4)
  ultimately show ?thesis
    using assms by (simp add: post_playlist_tracks_pg)
qed

theorem missing_track_is_bad_request_witness:
  "wf_db demo_db \<and> isValidId ''1'' \<and> digits_value ''1'' \<in> p_id ` set (playlists demo_db) \<and>
   (7::int) \<notin> t_id ` set (tracks demo_db) \<and>
   post_playlist_tracks pg_query ''1'' (track_body 7) demo_db =
     (sendError 400 ''Track does not exist'', demo_db)"
proof -
  have h: "digits_value ''1'' \<in> p_id ` set (playlists demo_db)"
    "(7::int) \<notin> t_id ` set (tracks demo_db)"
    by (simp_all add: demo_db_def)
  show ?thesis
    using missing_track_is_bad_request[OF demo_db_wf isValidId_1 h(1) _ _ _ h(2),
        of "JObject [(''trackId'', JNumber (Integral 7))]"]
      demo_db_wf isValidId_1 h
    by (simp add: track_body_def)
qed

text \<open>
  Claim C4 as stated fails beyond the range of an \<^verbatim>\<open>INTEGER\<close> column: \<^verbatim>\<open>trackId\<close> 2147483648
  is a positive integer that matches no track, the existence query itself fails on it,
  and the answer is 500.
\<close>

theorem out_of_range_track_is_server_error:
  "isValidId ''1'' \<and> digits_value ''1'' \<in> p_id ` set (playlists demo_db) \<and>
   (2147483648::int) \<notin> t_id ` set (tracks demo_db) \<and>
   post_playlist_tracks pg_query ''1'' (track_body 2147483648) demo_db =
     (sendError 500 ''Internal server error while adding track to playlist'', demo_db)"
proof -
  have "post_playlist_tracks pg_query ''1'' (track_body 2147483648) demo_db =
     (sendError 500 ''Internal server error while adding track to playlist'', demo_db)"
    unfolding track_body_def
    by (subst post_playlist_tracks_pg[OF isValidId_1, of 2147483648]) (simp_all add: demo_db_def)
  then show ?thesis
    using isValidId_1 by (simp add: demo_db_def)
qed

text \<open>
  Claim C1, as amended. Take a state that satisfies the schema, in which the playlist and
  the track exist and are not associated, every association key is below the next value
  of the association sequence, and that value is below 2147483647. The first
  \<^verbatim>\<open>POST /playlists/:id/tracks\<close> answers 201 with the new association, whose key no
  earlier association carries; the same request once more answers 400
  \<^verbatim>\<open>Track is already in this playlist\<close>; after both calls exactly one association holds
  the pair.
\<close>

theorem add_track_twice:
  assumes "wf_db st" and "isValidId idp"
    and "digits_value idp \<in> p_id ` set (playlists st)"
    and "0 < n" and "n \<in> t_id ` set (tracks st)"
    and "get_prop b ''trackId'' = Some (JNumber (Integral n))"
    and "(digits_value idp, n) \<notin> pairs st"
    and "\<forall>x\<in>set (playlists_tracks st). pt_id x < playlists_tracks_id_seq st"
    and "playlists_tracks_id_seq st < 2147483647"
    and "post_playlist_tracks pg_query idp (Some b) st = (r1, st1)"
    and "post_playlist_tracks pg_query idp (Some b) st1 = (r2, st2)"
  shows "r1 = \<lparr>status = 201, body = JsonRow (PlaylistTrackRow
                 \<lparr>pt_id = playlists_tracks_id_seq st, pt_playlist_id = digits_value idp,
                  pt_track_id = n\<rparr>)\<rparr> \<and>
         playlists_tracks_id_seq st \<notin> pt_id ` set (playlists_tracks st) \<and>
         r2 = sendError 400 ''Track is already in this playlist'' \<and>
         length (filter (\<lambda>x. pt_playlist_id x = digits_value idp \<and> pt_track_id x = n)
                   (playlists_tracks st2)) = 1"
proof -
  let ?P = "digits_value idp"
  let ?i = "playlists_tracks_id_seq st"
  let ?r = "\<lparr>pt_id = ?i, pt_playlist_id = ?P, pt_track_id = n\<rparr>"
  have P: "?P \<le> 2147483647" using assms(1,3) by (rule wf_db_playlist_int4)
  have n: "n \<le> 2147483647" "n < 2 ^ 53"
    using wf_db_track_int4[OF assms(1,5)] by simp_all
  have fresh: "?i \<notin> pt_id ` set (playlists_tracks st)"
    using assms(8) by force
  have none: "filter (\<lambda>x. pt_playlist_id x = ?P \<and> pt_track_id x = n) (playlists_tracks st) = []"
    using assms(7) by (force simp: pairs_def filter_empty_conv)
  have first: "post_playlist_tracks pg_query idp (Some b) st =
      (\<lparr>status = 201, body = JsonRow (PlaylistTrackRow ?r)\<rparr>,
       st\<lparr>playlists_tracks_id_seq := ?i + 1, playlists_tracks := playlists_tracks st @ [?r]\<rparr>)"
    using assms(3,5,7,9) fresh P n
    by (simp add: post_playlist_tracks_pg[OF assms(2,4) n(2) assms(6)]
        pg_insert_playlist_track[OF assms(2) P assms(4) n(1)] Let_def first_row_def)
  then have st1: "st1 = st\<lparr>playlists_tracks_id_seq := ?i + 1,
                           playlists_tracks := playlists_tracks st @ [?r]\<rparr>"
    and r1: "r1 = \<lparr>status = 201, body = JsonRow (PlaylistTrackRow ?r)\<rparr>"
    using assms(10) by simp_all
  have fresh1: "?i + 1 \<notin> pt_id ` set (playlists_tracks st1)"
    using assms(8) by (force simp: st1)
  have "post_playlist_tracks pg_query idp (Some b) st1 =
      (sendError 400 ''Track is already in this playlist'',
       st1\<lparr>playlists_tracks_id_seq := ?i + 2\<rparr>)"
    using assms(3,5,9) fresh1 P n
    by (simp add: post_playlist_tracks_pg[OF assms(2,4) n(2) assms(6)]
        pg_insert_playlist_track[OF assms(2) P assms(4) n(1)] Let_def
        unique_violation_def pairs_def) (simp add: st1)
  then have "r2 = sendError 400 ''Track is already in this playlist''"
    and "playlists_tracks st2 = playlists_tracks st @ [?r]"
    using assms(11) by (auto simp: st1)
  then show ?thesis using r1 fresh none by simp
qed

lemma demo_db_simps:
  "playlists exhausted_db = playlists demo_db" "tracks exhausted_db = tracks demo_db"
  "playlists_tracks exhausted_db = playlists_tracks demo_db"
  "playlists restored_db = playlists demo_db" "tracks restored_db = tracks demo_db"
  "playlists_tracks restored_db = playlists_tracks demo_db"
  "pairs exhausted_db = pairs demo_db" "pairs restored_db = pairs demo_db"
  by (simp_all add: exhausted_db_def restored_db_def pairs_def)

lemmas post_playlist_tracks_pg_body =
  post_playlist_tracks_pg[where b = "JObject [(''trackId'', JNumber (Integral n))]" and n = n for n,
    OF _ _ _ get_prop_track_body, folded track_body_def]

theorem add_track_twice_witness:
  "wf_db demo_db \<and> isValidId ''2'' \<and> digits_value ''2'' \<in> p_id ` set (playlists demo_db) \<and>
   (2::int) \<in> t_id ` set (tracks demo_db) \<and> (digits_value ''2'', 2) \<notin> pairs demo_db \<and>
   playlists_tracks_id_seq demo_db < 2147483647 \<and>
   fst (post_playlist_tracks pg_query ''2'' (track_body 2) demo_db) =
     \<lparr>status = 201, body = JsonRow (PlaylistTrackRow
        \<lparr>pt_id = 3, pt_playlist_id = 2, pt_track_id = 2\<rparr>)\<rparr> \<and>
   fst (post_playlist_tracks pg_query ''2'' (track_body 2)
         (snd (post_playlist_tracks pg_query ''2'' (track_body 2) demo_db))) =
     sendError 400 ''Track is already in this playlist'' \<and>
   length (filter (\<lambda>x. pt_playlist_id x = 2 \<and> pt_track_id x = 2)
     (playlists_tracks (snd (post_playlist_tracks pg_query ''2'' (track_body 2)
         (snd (post_playlist_tracks pg_query ''2'' (track_body 2) demo_db)))))) = 1"
proof -
  let ?b = "JObject [(''trackId'', JNumber (Integral 2))]"
  let ?X1 = "post_playlist_tracks pg_query ''2'' (Some ?b) demo_db"
  let ?X2 = "post_playlist_tracks pg_query ''2'' (Some ?b) (snd ?X1)"
  have h: "digits_value ''2'' \<in> p_id ` set (playlists demo_db)"
    "(0::int) < 2" "(2::int) \<in> t_id ` set (tracks demo_db)"
    "get_prop ?b ''trackId'' = Some (JNumber (Integral 2))"
    "(digits_value ''2'', 2) \<notin> pairs demo_db"
    "\<forall>x\<in>set (playlists_tracks demo_db). pt_id x < playlists_tracks_id_seq demo_db"
    "playlists_tracks_id_seq demo_db < 2147483647"
    by (simp_all add: demo_db_def pairs_def)
  have e: "?X1 = (fst ?X1, snd ?X1)" "?X2 = (fst ?X2, snd ?X2)" by simp_all
  show ?thesis
    using add_track_twice[OF demo_db_wf isValidId_2 h e] demo_db_wf isValidId_2 h
    by (simp add: track_body_def) (simp add: demo_db_def)
qed

text \<open>
  Claim C1 as stated fails in states where the sequence cannot deliver a fresh key,
  although playlist and track exist and are not associated: with the sequence used up the
  first call answers 500; with the sequence behind the keys of the table it answers 400.
\<close>

theorem add_track_first_call_not_created:
  "digits_value ''2'' \<in> p_id ` set (playlists exhausted_db) \<and>
   (2::int) \<in> t_id ` set (tracks exhausted_db) \<and>
   (digits_value ''2'', 2) \<notin> pairs exhausted_db \<and>
   fst (post_playlist_tracks pg_query ''2'' (track_body 2) exhausted_db) =
     sendError 500 ''Internal server error while adding track to playlist'' \<and>
   digits_value ''2'' \<in> p_id ` set (playlists restored_db) \<and>
   (2::int) \<in> t_id ` set (tracks restored_db) \<and>
   (digits_value ''2'', 2) \<notin> pairs restored_db \<and>
   fst (post_playlist_tracks pg_query ''2'' (track_body 2) restored_db) =
     sendError 400 ''Track is already in this playlist''"
proof -
  have h: "digits_value ''2'' \<in> p_id ` set (playlists demo_db)"
    "(2::int) \<in> t_id ` set (tracks demo_db)" "(digits_value ''2'', 2) \<notin> pairs demo_db"
    by (simp_all add: demo_db_def pairs_def)
  have "fst (post_playlist_tracks pg_query ''2'' (track_body 2) exhausted_db) =
     sendError 500 ''Internal server error while adding track to playlist''"
    by (simp add: post_playlist_tracks_pg_body[OF isValidId_2]
        pg_insert_playlist_track[OF isValidId_2] sequence_generator_limit_exceeded_def
        exhausted_db_def demo_db_def pairs_def)
  moreover have "fst (post_playlist_tracks pg_query ''2'' (track_body 2) restored_db) =
     sendError 400 ''Track is already in this playlist''"
    by (simp add: post_playlist_tracks_pg_body[OF isValidId_2]
        pg_insert_playlist_track[OF isValidId_2] unique_violation_def
        restored_db_def demo_db_def pairs_def)
  ultimately show ?thesis using h by (simp add: demo_db_simps)
qed















text \<open>
  The order of the checks of \<^verbatim>\<open>POST /playlists/:id/tracks\<close>, for every client, run through
  the client that records the statements: the format of the playlist identifier, the
  presence of the body, the presence of \<^verbatim>\<open>trackId\<close>, its being a positive integer. The first
  check that fails ends the request with no statement run and the store untouched; the
  answer is the 400 of the check, except for a \<^verbatim>\<open>trackId\<close> whose conversion to a string
  throws, which is answered 500. When all checks pass, the playlist lookup runs, then
  (when the playlist exists) the track lookup, then (when the track exists) the insert.
\<close>

lemma post_playlist_tracks_check_order:
  fixes q :: "'s client"
  shows
  "(\<not> isValidId idp \<longrightarrow>
      post_playlist_tracks (recording q) idp reqbody (s, []) =
        (sendError 400 ''Playlist ID must be a valid positive integer'', (s, []))) \<and>
   (isValidId idp \<and> \<not> truthy reqbody \<longrightarrow>
      post_playlist_tracks (recording q) idp reqbody (s, []) =
        (sendError 400 ''Request body is required'', (s, []))) \<and>
   (isValidId idp \<and> truthy (Some b) \<and>
    (get_prop b ''trackId'' = None \<or> get_prop b ''trackId'' = Some JNull) \<longrightarrow>
      post_playlist_tracks (recording q) idp (Some b) (s, []) =
        (sendError 400 ''trackId is required in request body'', (s, []))) \<and>
   (isValidId idp \<and> truthy (Some b) \<and> get_prop b ''trackId'' = Some t \<and> t \<noteq> JNull \<and>
    \<not> (\<exists>n. t = JNumber (Integral n) \<and> 0 < n) \<longrightarrow>
      post_playlist_tracks (recording q) idp (Some b) (s, []) =
        (if toString_throws t
         then sendError 500 ''Internal server error while adding track to playlist''
         else sendError 400 ''trackId must be a positive integer'', (s, []))) \<and>
   (isValidId idp \<and> get_prop b ''trackId'' = Some (JNumber (Integral n)) \<and> 0 < n \<longrightarrow>
      post_playlist_tracks (recording q) idp (Some b) (s, []) =
        (case q (SelectPlaylistId (PString idp)) s of
           (Inl e, sa) \<Rightarrow>
             (sendError 500 ''Internal server error while adding track to playlist'',
              (sa, [SelectPlaylistId (PString idp)]))
         | (Inr [], sa) \<Rightarrow>
             (sendError 404 ''Playlist not found'', (sa, [SelectPlaylistId (PString idp)]))
         | (Inr (r # rs), sa) \<Rightarrow>
             (case q (SelectTrackId (PNumber (Integral n))) sa of
                (Inl e, sb) \<Rightarrow>
                  (sendError 500 ''Internal server error while adding track to playlist'',
                   (sb, [SelectPlaylistId (PString idp), SelectTrackId (PNumber (Integral n))]))
              | (Inr [], sb) \<Rightarrow>
                  (sendError 400 ''Track does not exist'',
                   (sb, [SelectPlaylistId (PString idp), SelectTrackId (PNumber (Integral n))]))
              | (Inr (ra # ras), sb) \<Rightarrow>
                  (case q (InsertPlaylistTrack (PString idp) (PNumber (Integral n))) sb of
                     (Inr rows, sc) \<Rightarrow>
                       (\<lparr>status = 201, body = first_row rows\<rparr>,
                        (sc, [SelectPlaylistId (PString idp), SelectTrackId (PNumber (Integral n)),
                              InsertPlaylistTrack (PString idp) (PNumber (Integral n))]))
                   | (Inl e, sc) \<Rightarrow>
                       (if err_code e = Some ''23505''
                        then sendError 400 ''Track is already in this playlist''
                        else sendError 500 ''Internal server error while adding track to playlist'',
                        (sc, [SelectPlaylistId (PString idp), SelectTrackId (PNumber (Integral n)),
                              InsertPlaylistTrack (PString idp) (PNumber (Integral n))]))))))"
proof (intro conjI impI)
  show "post_playlist_tracks (recording q) idp reqbody (s, []) =
        (sendError 400 ''Playlist ID must be a valid positive integer'', (s, []))"
    if "\<not> isValidId idp"
    using that by (simp add: post_playlist_tracks_def)
  show "post_playlist_tracks (recording q) idp reqbody (s, []) =
        (sendError 400 ''Request body is required'', (s, []))"
    if "isValidId idp \<and> \<not> truthy reqbody"
    using that by (cases reqbody) (simp_all add: post_playlist_tracks_def)
  show "post_playlist_tracks (recording q) idp (Some b) (s, []) =
        (sendError 400 ''trackId is required in request body'', (s, []))"
    if "isValidId idp \<and> truthy (Some b) \<and>
        (get_prop b ''trackId'' = None \<or> get_prop b ''trackId'' = Some JNull)"
    using that by (auto simp: post_playlist_tracks_def)
  show "post_playlist_tracks (recording q) idp (Some b) (s, []) =
        (if toString_throws t
         then sendError 500 ''Internal server error while adding track to playlist''
         else sendError 400 ''trackId must be a positive integer'', (s, []))"
    if "isValidId idp \<and> truthy (Some b) \<and> get_prop b ''trackId'' = Some t \<and> t \<noteq> JNull \<and>
        \<not> (\<exists>n. t = JNumber (Integral n) \<and> 0 < n)"
  proof (cases t)
    case (JNumber x)
    then show ?thesis using that
      by (cases x) (auto simp: post_playlist_tracks_def)
  qed (use that in \<open>auto simp: post_playlist_tracks_def\<close>)
  show "post_playlist_tracks (recording q) idp (Some b) (s, []) =
        (case q (SelectPlaylistId (PString idp)) s of
           (Inl e, sa) \<Rightarrow>
             (sendError 500 ''Internal server error while adding track to playlist'',
              (sa, [SelectPlaylistId (PString idp)]))
         | (Inr [], sa) \<Rightarrow>
             (sendError 404 ''Playlist not found'', (sa, [SelectPlaylistId (PString idp)]))
         | (Inr (r # rs), sa) \<Rightarrow>
             (case q (SelectTrackId (PNumber (Integral n))) sa of
                (Inl e, sb) \<Rightarrow>
                  (sendError 500 ''Internal server error while adding track to playlist'',
                   (sb, [SelectPlaylistId (PString idp), SelectTrackId (PNumber (Integral n))]))
              | (Inr [], sb) \<Rightarrow>
                  (sendError 400 ''Track does not exist'',
                   (sb, [SelectPlaylistId (PString idp), SelectTrackId (PNumber (Integral n))]))
              | (Inr (ra # ras), sb) \<Rightarrow>
                  (case q (InsertPlaylistTrack (PString idp) (PNumber (Integral n))) sb of
                     (Inr rows, sc) \<Rightarrow>
                       (\<lparr>status = 201, body = first_row rows\<rparr>,
                        (sc, [SelectPlaylistId (PString idp), SelectTrackId (PNumber (Integral n)),
                              InsertPlaylistTrack (PString idp) (PNumber (Integral n))]))
                   | (Inl e, sc) \<Rightarrow>
                       (if err_code e = Some ''23505''
                        then sendError 400 ''Track is already in this playlist''
                        else sendError 500 ''Internal server error while adding track to playlist'',
                        (sc, [SelectPlaylistId (PString idp), SelectTrackId (PNumber (Integral n)),
                              InsertPlaylistTrack (PString idp) (PNumber (Integral n))])))))"
    if "isValidId idp \<and> get_prop b ''trackId'' = Some (JNumber (Integral n)) \<and> 0 < n"
    using that get_prop_truthy[of b "''trackId''" "JNumber (Integral n)"]
    by (simp add: post_playlist_tracks_def recording_def
        split: prod.splits sum.splits list.splits)
qed

text \<open>
  Claim C5 does not hold of the handler. For every client and every store: when the
  identifier is well formed and \<^verbatim>\<open>trackId\<close> is a value whose conversion to a string throws,
  as in the body \<^verbatim>\<open>{trackId: {toString: 1}}\<close>, the checks of the identifier and of the body
  pass, \<^verbatim>\<open>trackId\<close> is present and is no positive integer, and the claim gives the 400
  \<^verbatim>\<open>trackId must be a positive integer\<close>. The handler first logs the value through a
  template literal; the conversion throws a \<^verbatim>\<open>TypeError\<close>, the outer \<^verbatim>\<open>catch\<close> takes
  it, and the answer is 500. No statement was run.
\<close>

theorem throwing_trackId_answers_500:
  fixes q :: "'s client"
  assumes "isValidId idp" and "get_prop b ''trackId'' = Some t" and "toString_throws t"
  shows "post_playlist_tracks (recording q) idp (Some b) (s, []) =
           (sendError 500 ''Internal server error while adding track to playlist'', (s, []))"
  using assms get_prop_truthy[OF assms(2)]
  by (cases t) (simp_all add: post_playlist_tracks_def)

theorem throwing_trackId_answers_500_witness:
  "isValidId ''1'' \<and>
   get_prop (JObject [(''trackId'', JObject [(''toString'', JNumber (Integral 1))])]) ''trackId'' =
     Some (JObject [(''toString'', JNumber (Integral 1))]) \<and>
   toString_throws (JObject [(''toString'', JNumber (Integral 1))]) \<and>
   post_playlist_tracks (recording pg_query) ''1''
       (Some (JObject [(''trackId'', JObject [(''toString'', JNumber (Integral 1))])]))
       (demo_db, []) =
     (sendError 500 ''Internal server error while adding track to playlist'', (demo_db, [])) \<and>
   status (sendError 500 ''Internal server error while adding track to playlist'') = 500"
  using isValidId_1
    throwing_trackId_answers_500[of "''1''"
      "JObject [(''trackId'', JObject [(''toString'', JNumber (Integral 1))])]"
      "JObject [(''toString'', JNumber (Integral 1))]" pg_query demo_db]
  by (simp add: sendError_def)

lemma join_one_track:
  assumes "distinct (map (\<lambda>x. (pt_playlist_id x, pt_track_id x)) pts)"
  shows "[t. pt \<leftarrow> pts, t_id t = pt_track_id pt, pt_playlist_id pt = i] =
         (if (i, t_id t) \<in> (\<lambda>x. (pt_playlist_id x, pt_track_id x)) ` set pts then [t] else [])"
  using assms by (induction pts) (auto simp: image_iff)

lemma join_is_filter:
  assumes "distinct (map (\<lambda>x. (pt_playlist_id x, pt_track_id x)) pts)"
  shows "[t. t \<leftarrow> ts, pt \<leftarrow> pts, t_id t = pt_track_id pt, pt_playlist_id pt = i] =
         filter (\<lambda>t. (i, t_id t) \<in> (\<lambda>x. (pt_playlist_id x, pt_track_id x)) ` set pts) ts"
  by (induction ts) (simp_all add: join_one_track[OF assms])

text \<open>
  Claim C6, as amended. For a state that satisfies the schema and a well-formed
  identifier not above 2147483647: \<^verbatim>\<open>GET /playlists/:id/tracks\<close> answers 404 when no
  playlist has the identifier, and otherwise 200 with exactly the tracks associated to
  the playlist, each once, sorted by track identifier ascending; a playlist with no
  association gives 200 and the empty array.
\<close>

theorem playlist_tracks_listing:
  assumes "wf_db st" and "isValidId idp" and "digits_value idp \<le> 2147483647"
  shows
   "(digits_value idp \<notin> p_id ` set (playlists st) \<longrightarrow>
       get_playlist_tracks pg_query idp st = (sendError 404 ''Playlist not found'', st)) \<and>
    (digits_value idp \<in> p_id ` set (playlists st) \<longrightarrow>
       get_playlist_tracks pg_query idp st =
         (\<lparr>status = 200, body = JsonRows (map TrackRow (sort_key t_id
             (filter (\<lambda>t. (digits_value idp, t_id t) \<in> pairs st) (tracks st))))\<rparr>, st)) \<and>
    sorted (map t_id (sort_key t_id
       (filter (\<lambda>t. (digits_value idp, t_id t) \<in> pairs st) (tracks st)))) \<and>
    distinct (sort_key t_id
       (filter (\<lambda>t. (digits_value idp, t_id t) \<in> pairs st) (tracks st))) \<and>
    (digits_value idp \<in> p_id ` set (playlists st) \<and>
     (\<forall>t. (digits_value idp, t) \<notin> pairs st) \<longrightarrow>
       get_playlist_tracks pg_query idp st = (\<lparr>status = 200, body = JsonRows []\<rparr>, st))"
proof -
  have u: "distinct (map (\<lambda>x. (pt_playlist_id x, pt_track_id x)) (playlists_tracks st))"
    and d: "distinct (tracks st)"
    using assms(1) by (auto simp: wf_db_def distinct_map)
  have run: "get_playlist_tracks pg_query idp st =
      (if digits_value idp \<notin> p_id ` set (playlists st)
       then (sendError 404 ''Playlist not found'', st)
       else (\<lparr>status = 200, body = JsonRows (map TrackRow (sort_key t_id
             (filter (\<lambda>t. (digits_value idp, t_id t) \<in> pairs st) (tracks st))))\<rparr>, st))"
    using assms(2,3)
    by (simp add: get_playlist_tracks_def pg_query.simps int4in_id filter_key_empty
        join_is_filter[OF u] pairs_def)
  show ?thesis
    using d by (simp add: run)
qed

theorem playlist_tracks_listing_witness:
  "wf_db demo_db \<and> isValidId ''1'' \<and> isValidId ''2'' \<and>
   get_playlist_tracks pg_query ''1'' demo_db =
     (\<lparr>status = 200, body = JsonRows (map TrackRow
        [\<lparr>t_id = 1, t_name = ''Bohemian Rhapsody'', t_duration_ms = 355000\<rparr>,
         \<lparr>t_id = 3, t_name = ''Hotel California'', t_duration_ms = 391000\<rparr>])\<rparr>, demo_db) \<and>
   get_playlist_tracks pg_query ''2'' demo_db = (\<lparr>status = 200, body = JsonRows []\<rparr>, demo_db)"
proof -
  have h: "digits_value ''1'' \<in> p_id ` set (playlists demo_db)"
    "digits_value ''2'' \<in> p_id ` set (playlists demo_db)"
    "\<forall>t. (digits_value ''2'', t) \<notin> pairs demo_db"
    by (simp_all add: demo_db_def pairs_def)
  have "sort_key t_id (filter (\<lambda>t. (digits_value ''1'', t_id t) \<in> pairs demo_db) (tracks demo_db)) =
        [\<lparr>t_id = 1, t_name = ''Bohemian Rhapsody'', t_duration_ms = 355000\<rparr>,
         \<lparr>t_id = 3, t_name = ''Hotel California'', t_duration_ms = 391000\<rparr>]"
    by (simp add: demo_db_def pairs_def)
  then show ?thesis
    using h demo_db_wf isValidId_1 isValidId_2
      playlist_tracks_listing[OF demo_db_wf isValidId_1]
      playlist_tracks_listing[OF demo_db_wf isValidId_2]
    by simp
qed

lemma isValidId_2147483648: "isValidId ''2147483648''"
  by (rule canonical_isValidId)
     (simp_all add: canonical_decimal_def isDigit_def digits_value_def digit_value_def)

text \<open>
  Claim C6 as stated fails beyond the range of an \<^verbatim>\<open>INTEGER\<close> column: \<^verbatim>\<open>"2147483648"\<close> is a
  well-formed identifier of no playlist, the lookup itself fails on it, and the answer is
  500, not 404.
\<close>

theorem playlist_tracks_out_of_range:
  "isValidId ''2147483648'' \<and>
   digits_value ''2147483648'' \<notin> p_id ` set (playlists demo_db) \<and>
   get_playlist_tracks pg_query ''2147483648'' demo_db =
     (sendError 500 ''Internal server error while fetching playlist tracks'', demo_db)"
proof -
  have "digits_value ''2147483648'' = 2147483648"
    by (simp add: digits_value_def digit_value_def)
  then show ?thesis
    using isValidId_2147483648
    by (simp add: get_playlist_tracks_def pg_query.simps int4in_id demo_db_def)
qed

text \<open>
  Claim C7, as amended. \<^verbatim>\<open>POST /playlists\<close> with \<^verbatim>\<open>name\<close> and \<^verbatim>\<open>description\<close> non-empty
  strings without the character of code 0, in a state that satisfies the schema and whose
  playlist sequence is not used up and above every playlist key, answers 201 with a row
  that carries the two strings and, as identifier, the value of the sequence: a positive
  integer no earlier playlist has. Nothing is required of the names already stored.
\<close>

theorem create_playlist:
  assumes "get_prop b ''name'' = Some (JString nm)" and "nm \<noteq> []"
    and "get_prop b ''description'' = Some (JString d)" and "d \<noteq> []"
    and "CHR 0x00 \<notin> set nm" and "CHR 0x00 \<notin> set d"
    and "wf_db st" and "playlists_id_seq st \<le> 2147483647"
    and "\<forall>p\<in>set (playlists st). p_id p < playlists_id_seq st"
  shows "post_playlists pg_query (Some b) st =
           (\<lparr>status = 201, body = JsonRow (PlaylistRow
               \<lparr>p_id = playlists_id_seq st, p_name = nm, p_description = d\<rparr>)\<rparr>,
            st\<lparr>playlists_id_seq := playlists_id_seq st + 1,
               playlists := playlists st @
                 [\<lparr>p_id = playlists_id_seq st, p_name = nm, p_description = d\<rparr>]\<rparr>) \<and>
         0 < playlists_id_seq st \<and>
         playlists_id_seq st \<notin> p_id ` set (playlists st)"
proof -
  have fresh: "playlists_id_seq st \<notin> p_id ` set (playlists st)"
    using assms(9) by force
  have pos: "0 < playlists_id_seq st"
    using assms(7) by (simp add: wf_db_def)
  have "truthy (Some b)" using assms(1) by (rule get_prop_truthy)
  then show ?thesis
    using assms(1-6,8) fresh pos
    by (simp add: post_playlists_def pg_query.simps textin_def nextval_def Let_def)
qed

theorem create_playlist_witness:
  "CHR 0x00 \<notin> set ''Chill Vibes'' \<and> CHR 0x00 \<notin> set ''Again'' \<and>
   wf_db demo_db \<and> playlists_id_seq demo_db \<le> 2147483647 \<and>
   post_playlists pg_query (playlist_body ''Chill Vibes'' ''Again'') demo_db =
     (\<lparr>status = 201, body = JsonRow (PlaylistRow
         \<lparr>p_id = 3, p_name = ''Chill Vibes'', p_description = ''Again''\<rparr>)\<rparr>,
      demo_db\<lparr>playlists_id_seq := 4,
         playlists := playlists demo_db @
           [\<lparr>p_id = 3, p_name = ''Chill Vibes'', p_description = ''Again''\<rparr>]\<rparr>) \<and>
   (3::int) \<notin> p_id ` set (playlists demo_db)"
proof -
  have h: "CHR 0x00 \<notin> set ''Chill Vibes''" "CHR 0x00 \<notin> set ''Again''"
    "playlists_id_seq demo_db \<le> 2147483647"
    "\<forall>p\<in>set (playlists demo_db). p_id p < playlists_id_seq demo_db"
    by (simp_all add: demo_db_def)
  have s: "playlists_id_seq demo_db = 3" by (simp add: demo_db_def)
  show ?thesis
    using create_playlist[of "JObject [(''name'', JString ''Chill Vibes''),
        (''description'', JString ''Again'')]" "''Chill Vibes''" "''Again''" demo_db]
      h demo_db_wf
    by (simp add: playlist_body_def s)
qed

text \<open>
  Claim C7 as stated fails: with the playlist sequence used up, and with a name that holds
  the character of code 0, a body of two non-empty strings is answered 500.
\<close>

theorem create_playlist_can_fail:
  "post_playlists pg_query (playlist_body ''X'' ''Y'') exhausted_db =
     (sendError 500 ''Internal server error while creating playlist'', exhausted_db) \<and>
   post_playlists pg_query (playlist_body [CHR 0x00] ''Y'') demo_db =
     (sendError 500 ''Internal server error while creating playlist'', demo_db)"
  by (simp add: playlist_body_def post_playlists_def pg_query.simps textin_def nextval_def
      exhausted_db_def demo_db_def)

end
